theory Spec2Isabelle
  imports Main
begin

section \<open>Data model of the facility computers\<close>

text \<open>
  The embedding follows the \<^verbatim>\<open>package sim\<close> part of the sources (the ERAM and STARS
  computers).  Beacon codes are Go \<^verbatim>\<open>int\<close>s (\<^verbatim>\<open>type Squawk int\<close>); they are modelled
  as unbounded integers, which agrees with the 64-bit code on every value the
  functions below compute from 4-digit octal codes.  The simulation clock
  (\<^verbatim>\<open>time.Time\<close>) is an integer number of nanoseconds, read in UTC.

  Field names carry a short prefix for the structure they belong to, since
  several Go structures share field names (\<^verbatim>\<open>Altitude\<close>, \<^verbatim>\<open>Identifier\<close>, ...).
\<close>

type_synonym Squawk = int

datatype FlightRules = UNKNOWN | IFR | VFR | DVFR | SVFR

record CoordinationTime =
  ct_Time :: int
  ct_Type :: string

record AircraftDataMessage =
  ad_DepartureLocation :: string
  ad_ArrivalLocation :: string
  ad_NumberOfAircraft :: int
  ad_AircraftType :: string
  ad_AircraftCategory :: string
  ad_Equipment :: string

text \<open>
  Modelled from the spec: \<^verbatim>\<open>av.FlightPlan\<close>, declared outside the files at hand.
  "FlightPlan: callsign, aircraft type, assigned beacon code, departure/arrival
  airport, route string, requested/cleared altitude, ...": the record holds the
  fields that the functions modelled here read or write, under the names the
  code uses for them.
\<close>

record av_FlightPlan =
  av_Rules :: FlightRules
  av_AircraftType :: string
  av_AssignedSquawk :: Squawk
  av_DepartureAirport :: string
  av_ArrivalAirport :: string
  av_Route :: string
  av_ECID :: string
  av_Callsign :: string
  av_Exit :: string
  av_Altitude :: int

record STARSFlightPlan =
  fp_FlightPlan :: av_FlightPlan
  fp_FlightPlanType :: int
  fp_CoordinationTime :: CoordinationTime
  fp_CoordinationFix :: string
  fp_ContainedFacilities :: "string list"
  fp_Altitude :: string
  fp_SP1 :: string
  fp_SP2 :: string
  fp_InitialController :: string

text \<open>
  A track entry refers to its flight plan through a pointer.  The type
  parameter is the kind of reference: a heap address in the ERAM computer,
  where plans are shared and mutated in place, and the plan value itself in
  the STARS computer and in messages, where a plan is never written through
  the pointer.  \<open>None\<close> is the nil pointer.  (The \<^verbatim>\<open>RedirectedHandoff\<close> field, of
  a type declared elsewhere and never touched here, is left out.)
\<close>

record 'p TrackInformation =
  trk_Identifier :: string
  trk_TrackOwner :: string
  trk_HandoffController :: string
  trk_FlightPlan :: "'p option"
  trk_PointOut :: string
  trk_PointOutHistory :: "string list"
  trk_SP1 :: string
  trk_SP2 :: string
  trk_AutoAssociateFP :: bool

record FlightPlanMessage =
  msg_SourceID :: string
  msg_MessageType :: int
  msg_FlightID :: string
  msg_AircraftData :: AircraftDataMessage
  msg_BCN :: Squawk
  msg_CoordinationFix :: string
  msg_CoordinationTime :: CoordinationTime
  msg_Altitude :: string
  msg_Route :: string
  msg_TrackInformation :: "STARSFlightPlan TrackInformation"

text \<open>The message kinds, an \<^verbatim>\<open>iota\<close> block of integer constants.\<close>

definition Plan :: int where "Plan = 0"
definition Amendment :: int where "Amendment = 1"
definition Cancellation :: int where "Cancellation = 2"
definition RequestFlightPlan :: int where "RequestFlightPlan = 3"
definition DepartureDM :: int where "DepartureDM = 4"
definition BeaconTerminate :: int where "BeaconTerminate = 5"
definition InitiateTransfer :: int where "InitiateTransfer = 6"
definition AcceptRecallTransfer :: int where "AcceptRecallTransfer = 7"

lemmas MessageType_defs =
  Plan_def Amendment_def Cancellation_def RequestFlightPlan_def DepartureDM_def
  BeaconTerminate_def InitiateTransfer_def AcceptRecallTransfer_def

subsection \<open>Zero values\<close>

definition zero_CoordinationTime :: CoordinationTime where
  "zero_CoordinationTime = \<lparr>ct_Time = 0, ct_Type = []\<rparr>"

definition zero_AircraftDataMessage :: AircraftDataMessage where
  "zero_AircraftDataMessage =
     \<lparr>ad_DepartureLocation = [], ad_ArrivalLocation = [], ad_NumberOfAircraft = 0,
      ad_AircraftType = [], ad_AircraftCategory = [], ad_Equipment = []\<rparr>"

definition zero_av_FlightPlan :: av_FlightPlan where
  "zero_av_FlightPlan =
     \<lparr>av_Rules = UNKNOWN, av_AircraftType = [], av_AssignedSquawk = 0,
      av_DepartureAirport = [], av_ArrivalAirport = [], av_Route = [], av_ECID = [],
      av_Callsign = [], av_Exit = [], av_Altitude = 0\<rparr>"

definition zero_TrackInformation :: "'p TrackInformation" where
  "zero_TrackInformation =
     \<lparr>trk_Identifier = [], trk_TrackOwner = [], trk_HandoffController = [],
      trk_FlightPlan = None, trk_PointOut = [], trk_PointOutHistory = [],
      trk_SP1 = [], trk_SP2 = [], trk_AutoAssociateFP = False\<rparr>"

definition zero_FlightPlanMessage :: FlightPlanMessage where
  "zero_FlightPlanMessage =
     \<lparr>msg_SourceID = [], msg_MessageType = 0, msg_FlightID = [],
      msg_AircraftData = zero_AircraftDataMessage, msg_BCN = 0, msg_CoordinationFix = [],
      msg_CoordinationTime = zero_CoordinationTime, msg_Altitude = [], msg_Route = [],
      msg_TrackInformation = zero_TrackInformation\<rparr>"

text \<open>The promoted fields of the embedded track information.\<close>

definition msg_Identifier :: "FlightPlanMessage \<Rightarrow> string" where
  "msg_Identifier m = trk_Identifier (msg_TrackInformation m)"

definition msg_TrackOwner :: "FlightPlanMessage \<Rightarrow> string" where
  "msg_TrackOwner m = trk_TrackOwner (msg_TrackInformation m)"

definition msg_HandoffController :: "FlightPlanMessage \<Rightarrow> string" where
  "msg_HandoffController m = trk_HandoffController (msg_TrackInformation m)"

subsection \<open>String helpers of the Go library\<close>

fun strings_HasPrefix :: "string \<Rightarrow> string \<Rightarrow> bool" where
  "strings_HasPrefix s [] = True"
| "strings_HasPrefix [] (p # ps) = False"
| "strings_HasPrefix (c # cs) (p # ps) = (c = p \<and> strings_HasPrefix cs ps)"

fun strings_Contains :: "string \<Rightarrow> string \<Rightarrow> bool" where
  "strings_Contains [] sub = (sub = [])"
| "strings_Contains (c # cs) sub = (strings_HasPrefix (c # cs) sub \<or> strings_Contains cs sub)"

definition strings_TrimPrefix :: "string \<Rightarrow> string \<Rightarrow> string" where
  "strings_TrimPrefix s p = (if strings_HasPrefix s p then drop (length p) s else s)"

subsection \<open>Message to flight plan\<close>

text \<open>\<^verbatim>\<open>func (s FlightPlanMessage) FlightPlan() *STARSFlightPlan\<close>: the plan value
  the fresh pointer refers to.\<close>

definition FlightPlanMessage_FlightPlan :: "FlightPlanMessage \<Rightarrow> STARSFlightPlan" where
  "FlightPlanMessage_FlightPlan s =
     (let rules = (if strings_Contains (msg_Altitude s) ''VFR'' then VFR else IFR);
          flightPlan =
            \<lparr>fp_FlightPlan = zero_av_FlightPlan
               \<lparr>av_Rules := rules,
                av_AircraftType := ad_AircraftType (msg_AircraftData s),
                av_AssignedSquawk := msg_BCN s,
                av_DepartureAirport := ad_DepartureLocation (msg_AircraftData s),
                av_ArrivalAirport := ad_ArrivalLocation (msg_AircraftData s),
                av_Route := msg_Route s\<rparr>,
             fp_FlightPlanType = 0,
             fp_CoordinationTime = msg_CoordinationTime s,
             fp_CoordinationFix = msg_CoordinationFix s,
             fp_ContainedFacilities = [],
             fp_Altitude = msg_Altitude s,
             fp_SP1 = [], fp_SP2 = [], fp_InitialController = []\<rparr>
      in if length (msg_FlightID s) > 3
         then flightPlan\<lparr>fp_FlightPlan := (fp_FlightPlan flightPlan)
                \<lparr>av_ECID := take 3 (msg_FlightID s), av_Callsign := drop 3 (msg_FlightID s)\<rparr>\<rparr>
         else flightPlan)"

section \<open>Beacon code pools\<close>

text \<open>
  A pool is a Go map used as a set (\<^verbatim>\<open>map[av.Squawk]interface{}\<close> with nil
  values).  \<^verbatim>\<open>av.SquawkIsSPC\<close> is declared outside the files at hand and is a
  parameter; only its boolean result is used.  Octal literals: \<^verbatim>\<open>0o1001\<close> = 513,
  \<^verbatim>\<open>0o7777\<close> = 4095, \<^verbatim>\<open>0o1200\<close> = 640, \<^verbatim>\<open>0o100\<close> = 64, \<^verbatim>\<open>0o77\<close> = 63.
\<close>

definition getValidSquawkCodes :: "(Squawk \<Rightarrow> bool \<times> string) \<Rightarrow> Squawk set" where
  "getValidSquawkCodes SquawkIsSPC =
     fold (\<lambda>i sq. if \<not> fst (SquawkIsSPC i) \<and> i \<noteq> 640 then insert i sq else sq)
       [513..4095] {}"

text \<open>
  The bank number and the loop variable of \<^verbatim>\<open>getBeaconBankSquawks\<close> are Go \<^verbatim>\<open>int\<close>s,
  64 bits wide: sums and products wrap around, which \<open>wrap64\<close> writes out
  (\<^verbatim>\<open>2^63\<close> = 9223372036854775808, \<^verbatim>\<open>2^64\<close> = 18446744073709551616).  The loop
  \<^verbatim>\<open>for i := bank*0o100 + 1; i <= bank*0o100+0o77; i++\<close> does not end when its
  bound is the largest \<^verbatim>\<open>int\<close>; then the function does not return, which is the
  value \<open>None\<close>.
\<close>

definition wrap64 :: "int \<Rightarrow> int" where
  "wrap64 x = (x + 9223372036854775808) mod 18446744073709551616 - 9223372036854775808"

partial_function (option) getBeaconBankSquawks_loop ::
  "int \<Rightarrow> int \<Rightarrow> Squawk set \<Rightarrow> Squawk set option" where
  "getBeaconBankSquawks_loop i hi sq =
     (if i \<le> hi then getBeaconBankSquawks_loop (wrap64 (i + 1)) hi (insert i sq) else Some sq)"

definition getBeaconBankSquawks :: "int \<Rightarrow> Squawk set option" where
  "getBeaconBankSquawks bank =
     getBeaconBankSquawks_loop (wrap64 (wrap64 (bank * 64) + 1))
       (wrap64 (wrap64 (bank * 64) + 63)) {}"

datatype error =
  ErrUnknownFacility | ErrNoMoreAvailableSquawkCodes | ErrNoMatchingFix | ErrAdaptation string

section \<open>The STARS computer\<close>

text \<open>
  The fields of \<^verbatim>\<open>STARSComputer\<close> that its message handling and its code
  allocator use.  \<^verbatim>\<open>ContainedPlans\<close> and \<^verbatim>\<open>TrackInformation\<close> are Go maps to
  pointers; the code never stores a nil pointer in them, so a missing key and a
  nil value are both \<open>None\<close>.  The references to other computers' mailboxes
  (\<^verbatim>\<open>ERAMInbox\<close>, \<^verbatim>\<open>STARSInbox\<close>) and \<^verbatim>\<open>UnsupportedTracks\<close> are not used by the
  functions below.  \<^verbatim>\<open>AvailableSquawks\<close> is the current contents of the bank pool
  (in the Go code one map, which the STARS computers of a facility share; the
  functions below act on one computer at a time).
\<close>

record STARSComputer =
  stars_Identifier :: string
  stars_ContainedPlans :: "Squawk \<rightharpoonup> STARSFlightPlan"
  stars_ReceivedMessages :: "FlightPlanMessage list"
  stars_TrackInformation :: "string \<rightharpoonup> STARSFlightPlan TrackInformation"
  stars_AvailableSquawks :: "Squawk set"

text \<open>
  \<^verbatim>\<open>func (comp *STARSComputer) CreateSquawk() (av.Squawk, error)\<close>.  The loop
  \<^verbatim>\<open>for sq := range comp.AvailableSquawks\<close> returns in its first iteration, and
  Go leaves the iteration order of a map unspecified: any code of the pool may
  be the one returned.  The relation holds between the computer before the
  call and every possible outcome (code, error, computer after the call).
\<close>

inductive STARSComputer_CreateSquawk ::
  "STARSComputer \<Rightarrow> Squawk \<times> error option \<times> STARSComputer \<Rightarrow> bool" where
  STARS_squawk_found:
    "sq \<in> stars_AvailableSquawks c \<Longrightarrow>
     STARSComputer_CreateSquawk c
       (sq, None, c\<lparr>stars_AvailableSquawks := stars_AvailableSquawks c - {sq}\<rparr>)"
| STARS_squawk_exhausted:
    "stars_AvailableSquawks c = {} \<Longrightarrow>
     STARSComputer_CreateSquawk c (0, Some ErrNoMoreAvailableSquawkCodes, c)"

code_pred STARSComputer_CreateSquawk .

text \<open>
  Modelled from the spec: the event stream.  \<^verbatim>\<open>EventStream\<close>, \<^verbatim>\<open>Event\<close> and \<^verbatim>\<open>Post\<close>
  are declared outside the files at hand.  "Outcome events (transfer-accepted,
  transfer-rejected) posted to an external event bus ...; these are
  fire-and-forget notifications": the stream is the list of the events posted
  so far, in order, and \<^verbatim>\<open>e.Post\<close> appends one.  An event carries the three
  fields that the handlers set.
\<close>

datatype EventType = TransferAcceptedEvent | TransferRejectedEvent

record Event =
  ev_Type :: EventType
  ev_Callsign :: string
  ev_ToController :: string

type_synonym EventStream = "Event list"

definition Post :: "EventStream \<Rightarrow> Event \<Rightarrow> EventStream" where
  "Post e ev = e @ [ev]"

text \<open>
  The body of the loop of \<^verbatim>\<open>SortReceivedMessages\<close>: the \<^verbatim>\<open>switch\<close> on the message
  type, for one message.
\<close>

definition STARS_handle ::
  "FlightPlanMessage \<Rightarrow> STARSComputer \<times> EventStream \<Rightarrow> STARSComputer \<times> EventStream" where
  "STARS_handle msg st =
     (let c = fst st; e = snd st in
      if msg_MessageType msg = Plan then
        (if msg_BCN msg \<noteq> 0
         then (c\<lparr>stars_ContainedPlans :=
                  (stars_ContainedPlans c)(msg_BCN msg \<mapsto> FlightPlanMessage_FlightPlan msg)\<rparr>, e)
         else (c, e))
      else if msg_MessageType msg = Amendment then
        (c\<lparr>stars_ContainedPlans :=
            (stars_ContainedPlans c)(msg_BCN msg \<mapsto> FlightPlanMessage_FlightPlan msg)\<rparr>, e)
      else if msg_MessageType msg = Cancellation then
        (c\<lparr>stars_ContainedPlans := (stars_ContainedPlans c)(msg_BCN msg := None)\<rparr>, e)
      else if msg_MessageType msg = InitiateTransfer then
        (case stars_ContainedPlans c (msg_BCN msg) of
           Some fp \<Rightarrow>
             (c\<lparr>stars_TrackInformation :=
                 (stars_TrackInformation c)(msg_Identifier msg \<mapsto>
                    zero_TrackInformation
                      \<lparr>trk_TrackOwner := msg_TrackOwner msg,
                       trk_HandoffController := msg_HandoffController msg,
                       trk_FlightPlan := Some fp\<rparr>),
               stars_ContainedPlans := (stars_ContainedPlans c)(msg_BCN msg := None)\<rparr>,
              Post e \<lparr>ev_Type = TransferAcceptedEvent, ev_Callsign = msg_Identifier msg,
                      ev_ToController = msg_TrackOwner msg\<rparr>)
         | None \<Rightarrow>
             (case stars_TrackInformation c (msg_Identifier msg) of
                Some trk \<Rightarrow>
                  (c\<lparr>stars_TrackInformation :=
                      (stars_TrackInformation c)(msg_Identifier msg \<mapsto>
                         zero_TrackInformation
                           \<lparr>trk_TrackOwner := msg_TrackOwner msg,
                            trk_HandoffController := msg_HandoffController msg,
                            trk_FlightPlan := trk_FlightPlan trk\<rparr>),
                    stars_ContainedPlans := (stars_ContainedPlans c)(msg_BCN msg := None)\<rparr>,
                   Post e \<lparr>ev_Type = TransferAcceptedEvent, ev_Callsign = msg_Identifier msg,
                           ev_ToController = msg_TrackOwner msg\<rparr>)
              | None \<Rightarrow>
                  (c,
                   Post e \<lparr>ev_Type = TransferRejectedEvent, ev_Callsign = msg_Identifier msg,
                           ev_ToController = msg_TrackOwner msg\<rparr>)))
      else if msg_MessageType msg = AcceptRecallTransfer then
        (case stars_TrackInformation c (msg_Identifier msg) of
           None \<Rightarrow> (c, e)
         | Some info \<Rightarrow>
             if msg_TrackOwner msg \<noteq> trk_TrackOwner info
             then (c\<lparr>stars_TrackInformation :=
                      (stars_TrackInformation c)(msg_Identifier msg \<mapsto>
                         info\<lparr>trk_TrackOwner := msg_TrackOwner msg,
                              trk_HandoffController := []\<rparr>)\<rparr>, e)
             else (c\<lparr>stars_TrackInformation :=
                      (stars_TrackInformation c)(msg_Identifier msg := None)\<rparr>, e))
      else (c, e))"

text \<open>
  \<^verbatim>\<open>func (comp *STARSComputer) SortReceivedMessages(e *EventStream)\<close>: the range
  loop over the mailbox, then \<^verbatim>\<open>clear(comp.ReceivedMessages)\<close>.  No handler
  touches the computer's own mailbox.  The builtin \<^verbatim>\<open>clear\<close>, applied to a slice,
  sets every element up to the length of the slice to the zero value; the
  length of the slice stays.
\<close>

definition clear_slice :: "FlightPlanMessage list \<Rightarrow> FlightPlanMessage list" where
  "clear_slice s = map (\<lambda>_. zero_FlightPlanMessage) s"

definition SortReceivedMessages ::
  "STARSComputer \<Rightarrow> EventStream \<Rightarrow> STARSComputer \<times> EventStream" where
  "SortReceivedMessages c e =
     (let st = fold STARS_handle (stars_ReceivedMessages c) (c, e)
      in ((fst st)\<lparr>stars_ReceivedMessages := clear_slice (stars_ReceivedMessages (fst st))\<rparr>,
          snd st))"

section \<open>The ERAM computer\<close>

subsection \<open>Adaptation, slices, memory\<close>

text \<open>
  Modelled from the spec: the reference adaptation.  \<^verbatim>\<open>av.ERAMAdaptation\<close>,
  \<^verbatim>\<open>av.AdaptationFixes\<close> and \<^verbatim>\<open>av.AdaptationFix\<close> are declared outside the files at
  hand.  "Per-enroute-facility coordination-fix table (fix name to
  altitude-banded rules yielding a destination-facility identifier and an
  origin-facility identifier)": an \<^verbatim>\<open>AdaptationFix\<close> has the two facility fields
  the code reads; an \<^verbatim>\<open>AdaptationFixes\<close> value, used only through its method
  \<^verbatim>\<open>Fix(altitude)\<close>, is the function that method computes, and what that function
  returns is left open (a parameter of every statement); the two lookup
  methods of the adaptation are fields holding their functions, left open
  likewise.  \<^verbatim>\<open>CoordinationFixes\<close> is a Go map that the code both looks up and
  ranges over: it is an association list, ranged over in list order (Go leaves
  the order unspecified; the theorems below hold for every order).
\<close>

record AdaptationFix =
  af_FromFacility :: string
  af_ToFacility :: string

type_synonym AdaptationFixes = "string \<Rightarrow> error + AdaptationFix"

record ERAMAdaptation =
  CoordinationFixes :: "(string \<times> AdaptationFixes) list"
  FixForRouteAndAltitude :: "string \<Rightarrow> string \<Rightarrow> string \<times> bool"
  AdaptationFixForAltitude :: "string \<Rightarrow> string \<Rightarrow> AdaptationFix \<times> bool"

text \<open>
  A Go slice: a window (start, length) on a backing array.  The ERAM computer
  re-slices its own mailbox while a range loop over it is running, so this
  mailbox is modelled with its backing array.  Mailboxes that are only
  appended to, ranged over and cleared are plain lists.
\<close>

record 'a slice =
  sl_array :: "'a list"
  sl_start :: nat
  sl_len :: nat

definition slice_elems :: "'a slice \<Rightarrow> 'a list" where
  "slice_elems s = take (sl_len s) (drop (sl_start s) (sl_array s))"

definition slice_ok :: "'a slice \<Rightarrow> bool" where
  "slice_ok s = (sl_start s + sl_len s \<le> length (sl_array s))"

definition slice_of_list :: "'a list \<Rightarrow> 'a slice" where
  "slice_of_list xs = \<lparr>sl_array = xs, sl_start = 0, sl_len = length xs\<rparr>"

datatype panic = ZeroSquawk | NilPointerDereference | SliceBoundsOutOfRange

text \<open>\<^verbatim>\<open>s[1:]\<close>\<close>

definition slice_from1 :: "'a slice \<Rightarrow> panic + 'a slice" where
  "slice_from1 s =
     (if sl_len s < 1 then Inl SliceBoundsOutOfRange
      else Inr (s\<lparr>sl_start := sl_start s + 1, sl_len := sl_len s - 1\<rparr>))"

text \<open>\<^verbatim>\<open>clear(s)\<close>: the elements of the window become the zero value.\<close>

definition slice_clear :: "'a \<Rightarrow> 'a slice \<Rightarrow> 'a slice" where
  "slice_clear z s =
     s\<lparr>sl_array :=
         map (\<lambda>i. if sl_start s \<le> i \<and> i < sl_start s + sl_len s then z else sl_array s ! i)
           [0..<length (sl_array s)]\<rparr>"

text \<open>
  The computer with the memory its plan pointers refer to: \<open>eram_heap\<close> maps an
  address to the \<^verbatim>\<open>STARSFlightPlan\<close> stored there, \<open>eram_next\<close> is the next unused
  address (what the heap holds from there on is of no matter: an allocation
  writes the fresh plan first).  \<^verbatim>\<open>FlightPlans\<close> and the track entries hold
  addresses, so that a plan reachable from both is one object, as in the Go
  code.  \<^verbatim>\<open>ERAMInboxes\<close> holds, per facility, the contents of that facility's
  mailbox.
\<close>

record ERAMComputer =
  eram_STARSComputers :: "string \<rightharpoonup> STARSComputer"
  eram_ERAMInboxes :: "string \<rightharpoonup> FlightPlanMessage list"
  eram_ReceivedMessages :: "FlightPlanMessage slice"
  eram_FlightPlans :: "Squawk \<rightharpoonup> nat"
  eram_TrackInformation :: "string \<rightharpoonup> nat TrackInformation"
  eram_AvailableSquawks :: "Squawk set"
  eram_Identifier :: string
  eram_Adaptation :: ERAMAdaptation
  eram_heap :: "nat \<Rightarrow> STARSFlightPlan"
  eram_next :: nat

text \<open>\<^verbatim>\<open>func (comp *ERAMComputer) CreateSquawk() (av.Squawk, error)\<close>, as for the
  STARS computer.\<close>

inductive ERAMComputer_CreateSquawk ::
  "ERAMComputer \<Rightarrow> Squawk \<times> error option \<times> ERAMComputer \<Rightarrow> bool" where
  ERAM_squawk_found:
    "sq \<in> eram_AvailableSquawks c \<Longrightarrow>
     ERAMComputer_CreateSquawk c
       (sq, None, c\<lparr>eram_AvailableSquawks := eram_AvailableSquawks c - {sq}\<rparr>)"
| ERAM_squawk_exhausted:
    "eram_AvailableSquawks c = {} \<Longrightarrow>
     ERAMComputer_CreateSquawk c (0, Some ErrNoMoreAvailableSquawkCodes, c)"

code_pred ERAMComputer_CreateSquawk .

subsection \<open>Building messages\<close>

definition digit_char :: "nat \<Rightarrow> char" where
  "digit_char d = char_of (48 + d)"

text \<open>\<^verbatim>\<open>t.Format("1504Z")\<close>: hours and minutes of the day, two digits each.\<close>

definition Format_1504Z :: "int \<Rightarrow> string" where
  "Format_1504Z t =
     (let secs = t div 1000000000;
          h = nat ((secs div 3600) mod 24);
          m = nat ((secs div 60) mod 60)
      in [digit_char (h div 10), digit_char (h mod 10),
          digit_char (m div 10), digit_char (m mod 10), CHR ''Z''])"

definition formatSourceID :: "string \<Rightarrow> int \<Rightarrow> string" where
  "formatSourceID ident t = ident @ Format_1504Z t"

fun nat_digits :: "nat \<Rightarrow> string" where
  "nat_digits n =
     (if n < 10 then [digit_char n] else nat_digits (n div 10) @ [digit_char (n mod 10)])"

definition strconv_Itoa :: "int \<Rightarrow> string" where
  "strconv_Itoa i = (if i < 0 then CHR ''-'' # nat_digits (nat (- i)) else nat_digits (nat i))"

fun strings_Split :: "string \<Rightarrow> char \<Rightarrow> string list" where
  "strings_Split [] sep = [[]]"
| "strings_Split (x # xs) sep =
     (if x = sep then [] # strings_Split xs sep
      else (case strings_Split xs sep of
              w # ws \<Rightarrow> (x # w) # ws
            | [] \<Rightarrow> [[x]]))"

text \<open>
  \<^verbatim>\<open>func (fp FlightPlan) TypeWithoutSuffix() string\<close>, after the version of the
  method that the files at hand contain (on the aircraft type of the plan).
\<close>

definition TypeWithoutSuffix :: "av_FlightPlan \<Rightarrow> string" where
  "TypeWithoutSuffix fp =
     (let actypeFields = strings_Split (av_AircraftType fp) (CHR ''/'') in
      if length actypeFields = 3 then actypeFields ! 0 @ ''/'' @ actypeFields ! 1
      else if length actypeFields = 2 then
        (if actypeFields ! 0 = ''H'' \<or> actypeFields ! 0 = ''S''
         then actypeFields ! 0 @ ''/'' @ actypeFields ! 1
         else actypeFields ! 0)
      else av_AircraftType fp)"

text \<open>\<^verbatim>\<open>func (fp STARSFlightPlan) Message() FlightPlanMessage\<close>\<close>

definition STARSFlightPlan_Message :: "STARSFlightPlan \<Rightarrow> FlightPlanMessage" where
  "STARSFlightPlan_Message fp =
     zero_FlightPlanMessage
       \<lparr>msg_BCN := av_AssignedSquawk (fp_FlightPlan fp),
        msg_Altitude := fp_Altitude fp,
        msg_Route := av_Route (fp_FlightPlan fp),
        msg_AircraftData :=
          \<lparr>ad_DepartureLocation = av_DepartureAirport (fp_FlightPlan fp),
           ad_ArrivalLocation = av_ArrivalAirport (fp_FlightPlan fp),
           ad_NumberOfAircraft = 1,
           ad_AircraftType = TypeWithoutSuffix (fp_FlightPlan fp),
           ad_AircraftCategory = av_AircraftType (fp_FlightPlan fp),
           ad_Equipment = strings_TrimPrefix (av_AircraftType (fp_FlightPlan fp))
                            (TypeWithoutSuffix (fp_FlightPlan fp))\<rparr>,
        msg_FlightID := av_ECID (fp_FlightPlan fp) @ av_Callsign (fp_FlightPlan fp),
        msg_CoordinationFix := fp_CoordinationFix fp,
        msg_CoordinationTime := fp_CoordinationTime fp\<rparr>"

text \<open>\<^verbatim>\<open>func FlightPlanDepartureMessage(fp av.FlightPlan, sendingFacility string,
  simTime time.Time) FlightPlanMessage\<close>\<close>

definition FlightPlanDepartureMessage ::
  "av_FlightPlan \<Rightarrow> string \<Rightarrow> int \<Rightarrow> FlightPlanMessage" where
  "FlightPlanDepartureMessage fp sendingFacility simTime =
     zero_FlightPlanMessage
       \<lparr>msg_SourceID := formatSourceID sendingFacility simTime,
        msg_MessageType := Plan,
        msg_FlightID := av_ECID fp @ av_Callsign fp,
        msg_AircraftData :=
          \<lparr>ad_DepartureLocation = av_DepartureAirport fp,
           ad_ArrivalLocation = av_ArrivalAirport fp,
           ad_NumberOfAircraft = 1,
           ad_AircraftType = TypeWithoutSuffix fp,
           ad_AircraftCategory = av_AircraftType fp,
           ad_Equipment = strings_TrimPrefix (av_AircraftType fp) (TypeWithoutSuffix fp)\<rparr>,
        msg_BCN := av_AssignedSquawk fp,
        msg_CoordinationFix := av_Exit fp,
        msg_Altitude := (if av_Rules fp = VFR then ''VFR/'' else []) @ strconv_Itoa (av_Altitude fp),
        msg_Route := av_Route fp\<rparr>"

subsection \<open>Delivery\<close>

text \<open>\<^verbatim>\<open>func (comp *ERAMComputer) ToSTARSFacility(facility string, msg
  FlightPlanMessage) error\<close>\<close>

definition ToSTARSFacility ::
  "ERAMComputer \<Rightarrow> string \<Rightarrow> FlightPlanMessage \<Rightarrow> error option \<times> ERAMComputer" where
  "ToSTARSFacility c facility msg =
     (case eram_STARSComputers c facility of
        None \<Rightarrow> (Some ErrUnknownFacility, c)
      | Some stars \<Rightarrow>
          (None,
           c\<lparr>eram_STARSComputers := (eram_STARSComputers c)(facility \<mapsto>
                stars\<lparr>stars_ReceivedMessages := stars_ReceivedMessages stars @ [msg]\<rparr>)\<rparr>))"

text \<open>\<^verbatim>\<open>func (comp *ERAMComputer) SendMessageToERAM(facility string, msg
  FlightPlanMessage) error\<close>\<close>

definition SendMessageToERAM ::
  "ERAMComputer \<Rightarrow> string \<Rightarrow> FlightPlanMessage \<Rightarrow> error option \<times> ERAMComputer" where
  "SendMessageToERAM c facility msg =
     (case eram_ERAMInboxes c facility of
        None \<Rightarrow> (Some ErrUnknownFacility, c)
      | Some inbox \<Rightarrow>
          (None, c\<lparr>eram_ERAMInboxes := (eram_ERAMInboxes c)(facility \<mapsto> inbox @ [msg])\<rparr>))"

subsection \<open>Message handling\<close>

text \<open>
  The cases of the \<^verbatim>\<open>switch\<close> in \<^verbatim>\<open>SortMessages\<close>, one function per case.  A
  handler returns the computer after the message, or the panic that ends the
  run: the explicit \<^verbatim>\<open>panic("zero squawk")\<close>, a nil pointer dereference, a slice
  expression out of range.  Output to the logger \<^verbatim>\<open>comp.lg\<close> is not part of the
  state.
\<close>

text \<open>Plan, last step: "Check if another facility needs this plan."\<close>

definition ERAM_forward_plan ::
  "FlightPlanMessage \<Rightarrow> STARSFlightPlan \<Rightarrow> ERAMComputer \<Rightarrow> ERAMComputer" where
  "ERAM_forward_plan msg fp c =
     (let r = AdaptationFixForAltitude (eram_Adaptation c) (fp_CoordinationFix fp) (fp_Altitude fp)
      in if snd r \<and> af_ToFacility (fst r) \<noteq> eram_Identifier c
         then snd (ToSTARSFacility c (af_ToFacility (fst r)) msg)
         else c)"

definition ERAM_handle_Plan :: "FlightPlanMessage \<Rightarrow> ERAMComputer \<Rightarrow> panic + ERAMComputer" where
  "ERAM_handle_Plan msg c =
     (let fp = FlightPlanMessage_FlightPlan msg in
      if av_AssignedSquawk (fp_FlightPlan fp) = 0 then Inl ZeroSquawk
      else
        let a = eram_next c;
            c1 = c\<lparr>eram_heap := (eram_heap c)(a := fp), eram_next := Suc a,
                   eram_FlightPlans := (eram_FlightPlans c)(msg_BCN msg \<mapsto> a)\<rparr>
        in if fp_CoordinationFix fp = [] then
             (let r = FixForRouteAndAltitude (eram_Adaptation c1)
                        (av_Route (fp_FlightPlan fp)) (fp_Altitude fp);
                  fp' = fp\<lparr>fp_CoordinationFix := fst r\<rparr>;
                  c2 = c1\<lparr>eram_heap := (eram_heap c1)(a := fp')\<rparr>
              in if \<not> snd r then Inr c2 else Inr (ERAM_forward_plan msg fp' c2))
           else Inr (ERAM_forward_plan msg fp c1))"

definition ERAM_handle_RequestFlightPlan ::
  "int \<Rightarrow> FlightPlanMessage \<Rightarrow> ERAMComputer \<Rightarrow> panic + ERAMComputer" where
  "ERAM_handle_RequestFlightPlan simTime msg c =
     (if length (msg_SourceID msg) < 3 then Inl SliceBoundsOutOfRange
      else
        let facility = take 3 (msg_SourceID msg);
            c1 = (case eram_FlightPlans c (msg_BCN msg) of
                    Some a \<Rightarrow>
                      snd (ToSTARSFacility c facility
                             (FlightPlanDepartureMessage (fp_FlightPlan (eram_heap c a))
                                (eram_Identifier c) simTime))
                  | None \<Rightarrow> c)
        in (case slice_from1 (eram_ReceivedMessages c1) of
              Inl p \<Rightarrow> Inl p
            | Inr s \<Rightarrow> Inr (c1\<lparr>eram_ReceivedMessages := s\<rparr>)))"

text \<open>
  InitiateTransfer: the loop \<^verbatim>\<open>for name, fixes := range
  comp.Adaptation.CoordinationFixes\<close>, its body first.  The message is carried
  along with the computer, since the forwarding branch assigns \<^verbatim>\<open>msg.SourceID\<close>.
\<close>

definition ERAM_transfer_fix ::
  "int \<Rightarrow> string \<times> AdaptationFixes \<Rightarrow> FlightPlanMessage \<times> ERAMComputer
     \<Rightarrow> panic + FlightPlanMessage \<times> ERAMComputer" where
  "ERAM_transfer_fix simTime entry st =
     (let name = fst entry; fixes = snd entry; msg = fst st; c = snd st in
      case eram_TrackInformation c (msg_Identifier msg) of
        None \<Rightarrow> Inl NilPointerDereference
      | Some info \<Rightarrow>
          (case trk_FlightPlan info of
             None \<Rightarrow> Inl NilPointerDereference
           | Some a \<Rightarrow>
               (case fixes (fp_Altitude (eram_heap c a)) of
                  Inl err \<Rightarrow> Inr (msg, c)
                | Inr fix \<Rightarrow>
                    if name = msg_CoordinationFix msg \<and> af_ToFacility fix \<noteq> eram_Identifier c
                    then
                      (let msg' = msg\<lparr>msg_SourceID := formatSourceID (eram_Identifier c) simTime\<rparr>;
                           to = af_ToFacility fix
                       in if length to > 0 \<and> to ! 0 = CHR ''Z''
                          then Inr (msg', snd (SendMessageToERAM c to msg'))
                          else Inr (msg', snd (ToSTARSFacility c to msg')))
                    else if name = msg_CoordinationFix msg \<and> af_ToFacility fix = eram_Identifier c
                    then Inr (msg,
                           c\<lparr>eram_TrackInformation :=
                                (eram_TrackInformation c)(msg_Identifier msg \<mapsto>
                                   zero_TrackInformation
                                     \<lparr>trk_TrackOwner := msg_TrackOwner msg,
                                      trk_HandoffController := msg_HandoffController msg,
                                      trk_FlightPlan := eram_FlightPlans c (msg_BCN msg)\<rparr>)\<rparr>)
                    else Inr (msg, c))))"

fun ERAM_transfer_fixes ::
  "int \<Rightarrow> (string \<times> AdaptationFixes) list \<Rightarrow> FlightPlanMessage \<times> ERAMComputer
     \<Rightarrow> panic + FlightPlanMessage \<times> ERAMComputer" where
  "ERAM_transfer_fixes simTime [] st = Inr st"
| "ERAM_transfer_fixes simTime (entry # rest) st =
     (case ERAM_transfer_fix simTime entry st of
        Inl p \<Rightarrow> Inl p
      | Inr st' \<Rightarrow> ERAM_transfer_fixes simTime rest st')"

definition ERAM_handle_InitiateTransfer ::
  "int \<Rightarrow> FlightPlanMessage \<Rightarrow> ERAMComputer \<Rightarrow> panic + ERAMComputer" where
  "ERAM_handle_InitiateTransfer simTime msg c =
     (let info = (case eram_TrackInformation c (msg_Identifier msg) of
                    None \<Rightarrow> zero_TrackInformation
                              \<lparr>trk_FlightPlan := eram_FlightPlans c (msg_BCN msg)\<rparr>
                  | Some i \<Rightarrow> i);
          c1 = c\<lparr>eram_TrackInformation :=
                   (eram_TrackInformation c)(msg_Identifier msg \<mapsto>
                      info\<lparr>trk_TrackOwner := msg_TrackOwner msg,
                           trk_HandoffController := msg_HandoffController msg\<rparr>),
                 eram_AvailableSquawks := insert (msg_BCN msg) (eram_AvailableSquawks c)\<rparr>
      in case ERAM_transfer_fixes simTime (CoordinationFixes (eram_Adaptation c1)) (msg, c1) of
           Inl p \<Rightarrow> Inl p
         | Inr st \<Rightarrow> Inr (snd st))"

definition ERAM_handle_AcceptRecallTransfer ::
  "FlightPlanMessage \<Rightarrow> ERAMComputer \<Rightarrow> panic + ERAMComputer" where
  "ERAM_handle_AcceptRecallTransfer msg c =
     (case map_of (CoordinationFixes (eram_Adaptation c)) (msg_CoordinationFix msg) of
        None \<Rightarrow> Inr c
      | Some adaptationFixes \<Rightarrow>
          (let c1 = (case eram_TrackInformation c (msg_Identifier msg) of
                       Some info \<Rightarrow>
                         c\<lparr>eram_AvailableSquawks :=
                              (if msg_TrackOwner msg = trk_TrackOwner info
                               then insert (msg_BCN msg) (eram_AvailableSquawks c)
                               else eram_AvailableSquawks c),
                           eram_TrackInformation :=
                              (eram_TrackInformation c)(msg_Identifier msg \<mapsto>
                                 info\<lparr>trk_TrackOwner := msg_TrackOwner msg\<rparr>)\<rparr>
                     | None \<Rightarrow> c)
           in (case eram_TrackInformation c1 (msg_Identifier msg) of
                 None \<Rightarrow> Inl NilPointerDereference
               | Some info \<Rightarrow>
                   (case trk_FlightPlan info of
                      None \<Rightarrow> Inl NilPointerDereference
                    | Some a \<Rightarrow>
                        (case adaptationFixes (fp_Altitude (eram_heap c1 a)) of
                           Inr adaptationFix \<Rightarrow>
                             if af_FromFacility adaptationFix \<noteq> eram_Identifier c1
                             then Inr (snd (SendMessageToERAM c1
                                              (af_FromFacility adaptationFix) msg))
                             else Inr c1
                         | Inl err \<Rightarrow> Inr c1)))))"

definition ERAM_handle :: "int \<Rightarrow> FlightPlanMessage \<Rightarrow> ERAMComputer \<Rightarrow> panic + ERAMComputer" where
  "ERAM_handle simTime msg c =
     (if msg_MessageType msg = Plan then ERAM_handle_Plan msg c
      else if msg_MessageType msg = RequestFlightPlan
        then ERAM_handle_RequestFlightPlan simTime msg c
      else if msg_MessageType msg = DepartureDM then Inr c
      else if msg_MessageType msg = BeaconTerminate then Inr c
      else if msg_MessageType msg = InitiateTransfer
        then ERAM_handle_InitiateTransfer simTime msg c
      else if msg_MessageType msg = AcceptRecallTransfer
        then ERAM_handle_AcceptRecallTransfer msg c
      else Inr c)"

text \<open>
  \<^verbatim>\<open>func (comp *ERAMComputer) SortMessages(simTime time.Time)\<close>.  The range
  expression \<^verbatim>\<open>*comp.ReceivedMessages\<close> is evaluated once: the loop runs over the
  window the mailbox had on entry, reading element \<open>i\<close> of the backing array in
  iteration \<open>i\<close>, whatever the handlers have done to the mailbox by then.  In
  \<open>SortMessages_loop\<close>, \<open>i\<close> is the index in the backing array of the next message
  and the second number counts the iterations left.  After the loop,
  \<^verbatim>\<open>clear(*comp.ReceivedMessages)\<close> acts on the window the mailbox has then.
\<close>

fun SortMessages_loop :: "int \<Rightarrow> nat \<Rightarrow> nat \<Rightarrow> ERAMComputer \<Rightarrow> panic + ERAMComputer" where
  "SortMessages_loop simTime i 0 c = Inr c"
| "SortMessages_loop simTime i (Suc k) c =
     (case ERAM_handle simTime (sl_array (eram_ReceivedMessages c) ! i) c of
        Inl p \<Rightarrow> Inl p
      | Inr c' \<Rightarrow> SortMessages_loop simTime (Suc i) k c')"

definition SortMessages :: "ERAMComputer \<Rightarrow> int \<Rightarrow> panic + ERAMComputer" where
  "SortMessages c simTime =
     (case SortMessages_loop simTime (sl_start (eram_ReceivedMessages c))
             (sl_len (eram_ReceivedMessages c)) c of
        Inl p \<Rightarrow> Inl p
      | Inr c' \<Rightarrow>
          Inr (c'\<lparr>eram_ReceivedMessages :=
                    slice_clear zero_FlightPlanMessage (eram_ReceivedMessages c')\<rparr>))"

subsection \<open>Lookahead transmission of flight plans\<close>

text \<open>\<^verbatim>\<open>const TransmitFPMessageTime = 30 * time.Minute\<close>, in nanoseconds.\<close>

definition TransmitFPMessageTime :: int where
  "TransmitFPMessageTime = 30 * (60 * 1000000000)"

text \<open>
  \<^verbatim>\<open>func (comp *ERAMComputer) SendFlightPlan(fp *STARSFlightPlan, tracon string,
  simTime time.Time) error\<close>.  The plan is given by its address \<open>a\<close>.  The static
  database lookup \<^verbatim>\<open>av.DB.TRACONs[tracon].ARTCC\<close> is the parameter \<open>artcc\<close>.
\<close>

definition SendFlightPlan ::
  "(string \<Rightarrow> string) \<Rightarrow> ERAMComputer \<Rightarrow> nat \<Rightarrow> string \<Rightarrow> int \<Rightarrow> error option \<times> ERAMComputer" where
  "SendFlightPlan artcc c a tracon simTime =
     (let fp = eram_heap c a;
          msg = (STARSFlightPlan_Message fp)
                  \<lparr>msg_MessageType := Plan,
                   msg_SourceID := formatSourceID (eram_Identifier c) simTime\<rparr>
      in case map_of (CoordinationFixes (eram_Adaptation c)) (fp_CoordinationFix fp) of
           None \<Rightarrow> (Some ErrNoMatchingFix, c)
         | Some coordFix \<Rightarrow>
             (case coordFix (fp_Altitude fp) of
                Inl err \<Rightarrow> (Some err, c)
              | Inr adaptFix \<Rightarrow>
                  (let r = ToSTARSFacility c tracon msg;
                       c1 = (if fst r \<noteq> None
                             then snd (SendMessageToERAM (snd r) (artcc tracon) msg)
                             else snd r)
                   in (None,
                       c1\<lparr>eram_heap := (eram_heap c1)(a :=
                             fp\<lparr>fp_ContainedFacilities :=
                                  fp_ContainedFacilities fp @ [af_ToFacility adaptFix]\<rparr>)\<rparr>))))"

text \<open>The closure \<^verbatim>\<open>sendPlanIfReady\<close> of \<^verbatim>\<open>SendFlightPlans\<close>.\<close>

definition sendPlanIfReady ::
  "(string \<Rightarrow> string) \<Rightarrow> string \<Rightarrow> int \<Rightarrow> ERAMComputer \<Rightarrow> nat \<Rightarrow> ERAMComputer" where
  "sendPlanIfReady artcc tracon simTime c a =
     (let fp = eram_heap c a in
      if simTime + TransmitFPMessageTime < ct_Time (fp_CoordinationTime fp) then c
      else
        (case map_of (CoordinationFixes (eram_Adaptation c)) (fp_CoordinationFix fp) of
           None \<Rightarrow> c
         | Some coordFix \<Rightarrow>
             (case coordFix (fp_Altitude fp) of
                Inl err \<Rightarrow> c
              | Inr adaptFix \<Rightarrow>
                  if af_ToFacility adaptFix \<notin> set (fp_ContainedFacilities fp)
                  then snd (SendFlightPlan artcc c a tracon simTime)
                  else c)))"

text \<open>
  \<^verbatim>\<open>func (comp *ERAMComputer) SendFlightPlans(tracon string, simTime time.Time)\<close>.
  The two range loops run over Go maps, in an order the language leaves open;
  the order of each loop is an argument (the keys as the loop reaches them).  A
  key whose entry has been deleted before the loop reaches it produces no
  iteration.
\<close>

definition SendFlightPlans_track ::
  "(string \<Rightarrow> string) \<Rightarrow> string \<Rightarrow> int \<Rightarrow> string \<Rightarrow> ERAMComputer \<Rightarrow> ERAMComputer" where
  "SendFlightPlans_track artcc tracon simTime key c =
     (case eram_TrackInformation c key of
        None \<Rightarrow> c
      | Some info \<Rightarrow>
          (case trk_FlightPlan info of
             None \<Rightarrow> c
           | Some a \<Rightarrow>
               if av_Callsign (fp_FlightPlan (eram_heap c a)) = [] \<and> fp_Altitude (eram_heap c a) = []
               then c\<lparr>eram_TrackInformation :=
                        (eram_TrackInformation c)(trk_Identifier info := None)\<rparr>
               else sendPlanIfReady artcc tracon simTime c a))"

definition SendFlightPlans_plan ::
  "(string \<Rightarrow> string) \<Rightarrow> string \<Rightarrow> int \<Rightarrow> Squawk \<Rightarrow> ERAMComputer \<Rightarrow> ERAMComputer" where
  "SendFlightPlans_plan artcc tracon simTime key c =
     (case eram_FlightPlans c key of
        None \<Rightarrow> c
      | Some a \<Rightarrow> sendPlanIfReady artcc tracon simTime c a)"

definition SendFlightPlans ::
  "(string \<Rightarrow> string) \<Rightarrow> ERAMComputer \<Rightarrow> string \<Rightarrow> int \<Rightarrow> string list \<Rightarrow> Squawk list
     \<Rightarrow> ERAMComputer" where
  "SendFlightPlans artcc c tracon simTime trackOrder planOrder =
     fold (SendFlightPlans_plan artcc tracon simTime) planOrder
       (fold (SendFlightPlans_track artcc tracon simTime) trackOrder c)"

section \<open>Construction\<close>

text \<open>\<^verbatim>\<open>func MakeSTARSComputer(id string, sq map[av.Squawk]interface{})
  *STARSComputer\<close>\<close>

definition MakeSTARSComputer :: "string \<Rightarrow> Squawk set \<Rightarrow> STARSComputer" where
  "MakeSTARSComputer ident sq =
     \<lparr>stars_Identifier = ident, stars_ContainedPlans = Map.empty,
      stars_ReceivedMessages = [], stars_TrackInformation = Map.empty,
      stars_AvailableSquawks = sq\<rparr>"

text \<open>
  \<^verbatim>\<open>func MakeERAMComputer(fac string, starsBeaconBank int, lg *log.Logger)
  (*ERAMComputer, error)\<close>.  The static database \<^verbatim>\<open>av.DB\<close> is given by its two
  tables: \<open>adaptations\<close> for \<^verbatim>\<open>av.DB.ERAMAdaptations\<close> and \<open>tracons\<close>, the pairs
  (TRACON identifier, its ARTCC) of \<^verbatim>\<open>av.DB.TRACONs\<close>.  Every STARS computer of
  the facility receives the same bank pool.  The adaptation is looked up
  before the bank pool is built; the constructor does not return (\<open>None\<close>) when
  the loop of \<open>getBeaconBankSquawks\<close> does not.
\<close>

definition MakeERAMComputer ::
  "(Squawk \<Rightarrow> bool \<times> string) \<Rightarrow> (string \<rightharpoonup> ERAMAdaptation) \<Rightarrow> (string \<times> string) list
     \<Rightarrow> string \<Rightarrow> int \<Rightarrow> (error + ERAMComputer) option" where
  "MakeERAMComputer SquawkIsSPC adaptations tracons fac starsBeaconBank =
     (case adaptations fac of
        None \<Rightarrow> Some (Inl ErrUnknownFacility)
      | Some adaptation \<Rightarrow>
          (case getBeaconBankSquawks starsBeaconBank of
             None \<Rightarrow> None
           | Some starsAvailableSquawks \<Rightarrow>
           Some (Inr \<lparr>eram_STARSComputers =
                  map_of (map (\<lambda>t. (fst t, MakeSTARSComputer (fst t) starsAvailableSquawks))
                            (filter (\<lambda>t. snd t = fac) tracons)),
                eram_ERAMInboxes = Map.empty,
                eram_ReceivedMessages = slice_of_list [],
                eram_FlightPlans = Map.empty,
                eram_TrackInformation = Map.empty,
                eram_AvailableSquawks = getValidSquawkCodes SquawkIsSPC,
                eram_Identifier = fac,
                eram_Adaptation = adaptation,
                eram_heap = (\<lambda>a. FlightPlanMessage_FlightPlan zero_FlightPlanMessage),
                eram_next = 0\<rparr>)))"

section \<open>The drain contract, in the words of the specification\<close>

text \<open>
  "Takes the entire current mailbox contents as a batch and processes each
  message in original arrival order": every message of the batch is handled
  once, in list order, each on the state its predecessor left; a fatal
  condition ends the run.  This is the reading of the contract that
  \<open>SortMessages_loop\<close>, the loop of the code, is compared with.
\<close>

fun process_in_arrival_order ::
  "int \<Rightarrow> FlightPlanMessage list \<Rightarrow> ERAMComputer \<Rightarrow> panic + ERAMComputer" where
  "process_in_arrival_order simTime [] c = Inr c"
| "process_in_arrival_order simTime (m # ms) c =
     (case ERAM_handle simTime m c of
        Inl p \<Rightarrow> Inl p
      | Inr c' \<Rightarrow> process_in_arrival_order simTime ms c')"

section \<open>Example computers and messages\<close>

text \<open>
  A small facility graph for the closed instances below: the enroute facility
  ZNY with the terminal facility N90 and the neighbour ZBW; the fix DIXIE hands
  over from ZNY to N90, the fix LENDY from ZBW to ZNY.  Beacon code 313 is
  \<^verbatim>\<open>0o471\<close>.
\<close>

definition example_adaptation :: ERAMAdaptation where
  "example_adaptation =
     \<lparr>CoordinationFixes =
        [(''DIXIE'', \<lambda>alt. Inr \<lparr>af_FromFacility = ''ZNY'', af_ToFacility = ''N90''\<rparr>),
         (''LENDY'', \<lambda>alt. Inr \<lparr>af_FromFacility = ''ZBW'', af_ToFacility = ''ZNY''\<rparr>)],
      FixForRouteAndAltitude = (\<lambda>route alt. ([], False)),
      AdaptationFixForAltitude =
        (\<lambda>fix alt. if fix = ''DIXIE''
                    then (\<lparr>af_FromFacility = ''ZNY'', af_ToFacility = ''N90''\<rparr>, True)
                    else (\<lparr>af_FromFacility = [], af_ToFacility = []\<rparr>, False))\<rparr>"

definition example_track :: "STARSFlightPlan TrackInformation" where
  "example_track =
     zero_TrackInformation
       \<lparr>trk_Identifier := ''AAL123'', trk_TrackOwner := ''1A'', trk_HandoffController := ''2B''\<rparr>"

definition example_plan_msg :: FlightPlanMessage where
  "example_plan_msg =
     zero_FlightPlanMessage
       \<lparr>msg_MessageType := Plan, msg_FlightID := ''123AAL123'', msg_BCN := 313,
        msg_CoordinationFix := ''DIXIE'', msg_Altitude := ''310''\<rparr>"

definition example_transfer_msg :: FlightPlanMessage where
  "example_transfer_msg =
     zero_FlightPlanMessage
       \<lparr>msg_MessageType := InitiateTransfer, msg_BCN := 313, msg_CoordinationFix := ''DIXIE'',
        msg_TrackInformation := example_track\<rparr>"

definition example_accept_msg :: FlightPlanMessage where
  "example_accept_msg =
     zero_FlightPlanMessage
       \<lparr>msg_MessageType := AcceptRecallTransfer, msg_BCN := 313, msg_CoordinationFix := ''DIXIE'',
        msg_TrackInformation := example_track\<lparr>trk_TrackOwner := ''3C''\<rparr>\<rparr>"

definition example_recall_msg :: FlightPlanMessage where
  "example_recall_msg =
     zero_FlightPlanMessage
       \<lparr>msg_MessageType := AcceptRecallTransfer, msg_BCN := 313, msg_CoordinationFix := ''DIXIE'',
        msg_TrackInformation := example_track\<rparr>"

definition example_amendment_zero :: FlightPlanMessage where
  "example_amendment_zero = zero_FlightPlanMessage\<lparr>msg_MessageType := Amendment\<rparr>"

definition example_stars_track :: "STARSFlightPlan TrackInformation" where
  "example_stars_track =
     zero_TrackInformation
       \<lparr>trk_TrackOwner := ''1A'', trk_HandoffController := ''2B'',
        trk_FlightPlan := Some (FlightPlanMessage_FlightPlan example_plan_msg)\<rparr>"

definition example_stars :: STARSComputer where
  "example_stars = MakeSTARSComputer ''N90'' {65..127}"

definition example_stars_with_plan :: STARSComputer where
  "example_stars_with_plan =
     example_stars\<lparr>stars_ContainedPlans := [313 \<mapsto> FlightPlanMessage_FlightPlan example_plan_msg]\<rparr>"

definition example_stars_with_track :: STARSComputer where
  "example_stars_with_track =
     example_stars\<lparr>stars_TrackInformation := [''AAL123'' \<mapsto> example_stars_track]\<rparr>"

definition example_eram :: ERAMComputer where
  "example_eram =
     \<lparr>eram_STARSComputers = [''N90'' \<mapsto> example_stars],
      eram_ERAMInboxes = [''ZBW'' \<mapsto> []],
      eram_ReceivedMessages = slice_of_list [],
      eram_FlightPlans = Map.empty,
      eram_TrackInformation = Map.empty,
      eram_AvailableSquawks = {513, 514},
      eram_Identifier = ''ZNY'',
      eram_Adaptation = example_adaptation,
      eram_heap = (\<lambda>a. FlightPlanMessage_FlightPlan zero_FlightPlanMessage),
      eram_next = 0\<rparr>"

definition example_made :: ERAMComputer where
  "example_made =
     projr (the (MakeERAMComputer (\<lambda>i. (i = 4032, [])) [''ZNY'' \<mapsto> example_adaptation]
                   [(''N90'', ''ZNY''), (''A90'', ''ZBW'')] ''ZNY'' 1))"


definition example_cancel_msg :: FlightPlanMessage where
  "example_cancel_msg = zero_FlightPlanMessage\<lparr>msg_MessageType := Cancellation, msg_BCN := 313\<rparr>"

definition example_departure_msg :: FlightPlanMessage where
  "example_departure_msg = zero_FlightPlanMessage\<lparr>msg_MessageType := DepartureDM, msg_BCN := 313\<rparr>"

definition example_eram_track :: "nat TrackInformation" where
  "example_eram_track =
     zero_TrackInformation
       \<lparr>trk_TrackOwner := ''1A'', trk_HandoffController := ''2B'', trk_FlightPlan := Some 0\<rparr>"

definition example_eram_with_track :: ERAMComputer where
  "example_eram_with_track =
     example_eram
       \<lparr>eram_FlightPlans := [313 \<mapsto> 0],
        eram_TrackInformation := [''AAL123'' \<mapsto> example_eram_track],
        eram_heap := (eram_heap example_eram)(0 := FlightPlanMessage_FlightPlan example_plan_msg),
        eram_next := 1\<rparr>"

definition example_request_msg :: FlightPlanMessage where
  "example_request_msg =
     zero_FlightPlanMessage
       \<lparr>msg_SourceID := ''N901504Z'', msg_MessageType := RequestFlightPlan, msg_BCN := 313\<rparr>"

definition example_eram_recorded :: ERAMComputer where
  "example_eram_recorded =
     example_eram_with_track
       \<lparr>eram_heap := (eram_heap example_eram)(0 :=
          (FlightPlanMessage_FlightPlan example_plan_msg)\<lparr>fp_ContainedFacilities := [''N90'']\<rparr>)\<rparr>"

definition example_batch :: "FlightPlanMessage list" where
  "example_batch = [example_plan_msg, example_request_msg, example_departure_msg]"

definition example_eram_batch :: ERAMComputer where
  "example_eram_batch = example_eram\<lparr>eram_ReceivedMessages := slice_of_list example_batch\<rparr>"

definition example_eram_after_batch :: ERAMComputer where
  "example_eram_after_batch =
     example_eram
       \<lparr>eram_STARSComputers := [''N90'' \<mapsto> example_stars
            \<lparr>stars_ReceivedMessages :=
               [example_plan_msg,
                FlightPlanDepartureMessage
                  (fp_FlightPlan (FlightPlanMessage_FlightPlan example_plan_msg)) ''ZNY'' 0]\<rparr>],
        eram_FlightPlans := [313 \<mapsto> 0],
        eram_heap := (eram_heap example_eram)(0 := FlightPlanMessage_FlightPlan example_plan_msg),
        eram_next := 1\<rparr>"

section \<open>Messages that no handler can fail on\<close>

text \<open>
  A message that is no track message (neither InitiateTransfer nor
  AcceptRecallTransfer) and, if it is a Plan message, has a non-zero beacon
  code and, if it is a RequestFlightPlan message, a source tag of at least
  three characters.
\<close>

definition well_formed_untracked :: "FlightPlanMessage \<Rightarrow> bool" where
  "well_formed_untracked m =
     (msg_MessageType m \<noteq> InitiateTransfer \<and> msg_MessageType m \<noteq> AcceptRecallTransfer \<and>
      (if msg_MessageType m = Plan then msg_BCN m \<noteq> 0
       else if msg_MessageType m = RequestFlightPlan then 3 \<le> length (msg_SourceID m)
       else True))"

section \<open>Notions used by the statements on lookahead transmission\<close>

text \<open>
  The destination facility that the adaptation resolves for the plan at address
  \<open>a\<close> (the lookups of \<^verbatim>\<open>sendPlanIfReady\<close> and \<^verbatim>\<open>SendFlightPlan\<close>), the plan's
  distribution record, and a run of ticks: \<^verbatim>\<open>SendFlightPlans\<close> called once per tick,
  each tick with its clock value and the orders of its two range loops.
\<close>

definition plan_destination :: "ERAMComputer \<Rightarrow> nat \<Rightarrow> string option" where
  "plan_destination c a =
     (case map_of (CoordinationFixes (eram_Adaptation c)) (fp_CoordinationFix (eram_heap c a)) of
        None \<Rightarrow> None
      | Some coordFix \<Rightarrow>
          (case coordFix (fp_Altitude (eram_heap c a)) of
             Inl err \<Rightarrow> None
           | Inr adaptFix \<Rightarrow> Some (af_ToFacility adaptFix)))"

definition SendFlightPlans_ticks ::
  "(string \<Rightarrow> string) \<Rightarrow> string \<Rightarrow> (int \<times> string list \<times> Squawk list) list \<Rightarrow> ERAMComputer
     \<Rightarrow> ERAMComputer" where
  "SendFlightPlans_ticks artcc tracon ticks c =
     fold (\<lambda>tick c'. SendFlightPlans artcc c' tracon (fst tick) (fst (snd tick)) (snd (snd tick)))
       ticks c"

definition distribution :: "ERAMComputer \<Rightarrow> nat \<Rightarrow> string list" where
  "distribution c a = fp_ContainedFacilities (eram_heap c a)"

text \<open>
  The plan at address \<open>a\<close>, compared with a starting computer \<open>c0\<close>: untouched, or
  changed by exactly one entry at the end of its distribution record, the
  resolved destination, which the record did not hold before.
\<close>

definition sent_at_most_once :: "ERAMComputer \<Rightarrow> nat \<Rightarrow> ERAMComputer \<Rightarrow> bool" where
  "sent_at_most_once c0 a c =
     (eram_Adaptation c = eram_Adaptation c0 \<and>
      (eram_heap c a = eram_heap c0 a \<or>
       (\<exists>f. plan_destination c0 a = Some f \<and>
            f \<notin> set (fp_ContainedFacilities (eram_heap c0 a)) \<and>
            eram_heap c a = (eram_heap c0 a)\<lparr>fp_ContainedFacilities :=
              fp_ContainedFacilities (eram_heap c0 a) @ [f]\<rparr>)))"

text \<open>
  What one call of \<^verbatim>\<open>SendFlightPlan\<close> transmits and records.  The message it
  builds from the plan at address \<open>a\<close> (\<^verbatim>\<open>msg := fp.Message()\<close> with the type
  Plan and the source tag of the sender); where its messages go (the mailbox of
  the STARS computer of \<open>tracon\<close> when the ERAM computer has one, else the inbox
  of the enroute facility of \<open>tracon\<close>, else nowhere: \<^verbatim>\<open>ToSTARSFacility\<close>, then
  \<^verbatim>\<open>SendMessageToERAM\<close>), for a list of messages in the order sent; and the entry
  it appends to the plan's distribution record.
\<close>

definition plan_message :: "ERAMComputer \<Rightarrow> nat \<Rightarrow> int \<Rightarrow> FlightPlanMessage" where
  "plan_message c a simTime =
     (STARSFlightPlan_Message (eram_heap c a))
       \<lparr>msg_MessageType := Plan, msg_SourceID := formatSourceID (eram_Identifier c) simTime\<rparr>"

definition deliver ::
  "(string \<Rightarrow> string) \<Rightarrow> string \<Rightarrow> FlightPlanMessage list \<Rightarrow> ERAMComputer \<Rightarrow> ERAMComputer" where
  "deliver artcc tracon msgs c =
     (case eram_STARSComputers c tracon of
        Some stars \<Rightarrow>
          c\<lparr>eram_STARSComputers := (eram_STARSComputers c)(tracon \<mapsto>
               stars\<lparr>stars_ReceivedMessages := stars_ReceivedMessages stars @ msgs\<rparr>)\<rparr>
      | None \<Rightarrow>
          (case eram_ERAMInboxes c (artcc tracon) of
             Some inbox \<Rightarrow>
               c\<lparr>eram_ERAMInboxes := (eram_ERAMInboxes c)(artcc tracon \<mapsto> inbox @ msgs)\<rparr>
           | None \<Rightarrow> c))"

definition record_sent :: "STARSFlightPlan \<Rightarrow> string \<Rightarrow> STARSFlightPlan" where
  "record_sent fp g = fp\<lparr>fp_ContainedFacilities := fp_ContainedFacilities fp @ [g]\<rparr>"

text \<open>
  A run of \<^verbatim>\<open>SendFlightPlans\<close> from the computer \<open>c0\<close> to the computer \<open>c\<close>,
  accounted for by the list \<open>sends\<close> of its transmissions (address of the plan,
  clock value of the tick), in the order made: no plan is transmitted twice;
  each transmission is made at a clock value of the run, when the lookahead
  window of the plan has been reached, for a plan whose destination is resolved
  and not in its distribution record, and it appends the destination to the
  record; every other plan is as it was; the mailboxes hold what they held and,
  behind it, exactly the messages of \<open>sends\<close>; nothing else of the computer has
  changed, except that track entries may have been deleted.
\<close>

definition transmitted ::
  "(string \<Rightarrow> string) \<Rightarrow> string \<Rightarrow> int set \<Rightarrow> ERAMComputer \<Rightarrow> (nat \<times> int) list \<Rightarrow> ERAMComputer
     \<Rightarrow> bool" where
  "transmitted artcc tracon instants c0 sends c =
     (distinct (map fst sends) \<and>
      (\<forall>s \<in> set sends.
         snd s \<in> instants \<and>
         \<not> snd s + TransmitFPMessageTime < ct_Time (fp_CoordinationTime (eram_heap c0 (fst s))) \<and>
         (\<exists>g. plan_destination c0 (fst s) = Some g \<and> g \<notin> set (distribution c0 (fst s)) \<and>
              eram_heap c (fst s) = record_sent (eram_heap c0 (fst s)) g)) \<and>
      (\<forall>b. b \<notin> fst ` set sends \<longrightarrow> eram_heap c b = eram_heap c0 b) \<and>
      eram_STARSComputers c =
        eram_STARSComputers
          (deliver artcc tracon (map (\<lambda>s. plan_message c0 (fst s) (snd s)) sends) c0) \<and>
      eram_ERAMInboxes c =
        eram_ERAMInboxes
          (deliver artcc tracon (map (\<lambda>s. plan_message c0 (fst s) (snd s)) sends) c0) \<and>
      (\<forall>k. eram_TrackInformation c k = None \<or>
           eram_TrackInformation c k = eram_TrackInformation c0 k) \<and>
      eram_FlightPlans c = eram_FlightPlans c0 \<and>
      eram_ReceivedMessages c = eram_ReceivedMessages c0 \<and>
      eram_AvailableSquawks c = eram_AvailableSquawks c0 \<and>
      eram_Identifier c = eram_Identifier c0 \<and>
      eram_Adaptation c = eram_Adaptation c0 \<and>
      eram_next c = eram_next c0)"

section \<open>Beacon code pools: contents at construction\<close>

lemma fold_insert_if:
  "fold (\<lambda>i sq. if P i then insert i sq else sq) xs S = S \<union> {i \<in> set xs. P i}"
  by (induction xs arbitrary: S) auto

lemma getValidSquawkCodes_eq:
  "getValidSquawkCodes spc = {i. 513 \<le> i \<and> i \<le> 4095 \<and> \<not> fst (spc i) \<and> i \<noteq> 640}"
proof -
  have "getValidSquawkCodes spc = {i \<in> set [513..4095]. \<not> fst (spc i) \<and> i \<noteq> 640}"
    unfolding getValidSquawkCodes_def fold_insert_if by (rule Un_empty_left)
  also have "\<dots> = {i. 513 \<le> i \<and> i \<le> 4095 \<and> \<not> fst (spc i) \<and> i \<noteq> 640}"
    unfolding set_upto by (rule set_eqI) (simp only: mem_Collect_eq atLeastAtMost_iff conj_assoc)
  finally show ?thesis .
qed

text \<open>
  The bank loop: where nothing wraps around and the bound is below the largest
  \<^verbatim>\<open>int\<close>, it returns the codes from its start to its bound.  That is so for the
  bank numbers from \<^verbatim>\<open>-2^57\<close> (-144115188075855872) to \<^verbatim>\<open>2^57 - 2\<close>.
\<close>

lemma wrap64_id: "- 9223372036854775808 \<le> x \<Longrightarrow> x < 9223372036854775808 \<Longrightarrow> wrap64 x = x"
  by (simp add: wrap64_def)

lemma wrap64_range: "- 9223372036854775808 \<le> wrap64 x \<and> wrap64 x < 9223372036854775808"
  unfolding wrap64_def
  using pos_mod_bound[of 18446744073709551616 "x + 9223372036854775808"]
        pos_mod_sign[of 18446744073709551616 "x + 9223372036854775808"]
  by linarith

lemma getBeaconBankSquawks_loop_returns:
  "- 9223372036854775808 \<le> i \<Longrightarrow> hi < 9223372036854775807 \<Longrightarrow> i \<le> hi + 1 \<Longrightarrow>
   getBeaconBankSquawks_loop i hi sq = Some (sq \<union> {i..hi})"
proof (induction "nat (hi + 1 - i)" arbitrary: i sq)
  case 0
  then have "\<not> i \<le> hi" by simp
  then show ?case by (subst getBeaconBankSquawks_loop.simps) simp
next
  case (Suc n)
  then have le: "i \<le> hi" by linarith
  with Suc.prems have w: "wrap64 (i + 1) = i + 1" by (intro wrap64_id) linarith+
  have "getBeaconBankSquawks_loop (i + 1) hi (insert i sq) = Some (insert i sq \<union> {i + 1..hi})"
    using Suc by (intro Suc.hyps(1)) linarith+
  moreover have "insert i sq \<union> {i + 1..hi} = sq \<union> {i..hi}"
    using le by auto
  ultimately show ?case
    using le w by (subst getBeaconBankSquawks_loop.simps) simp
qed

lemma getBeaconBankSquawks_eq:
  assumes "- 144115188075855872 \<le> bank" and "bank < 144115188075855871"
  shows "getBeaconBankSquawks bank = Some {bank * 64 + 1..bank * 64 + 63}"
proof -
  from assms have w: "wrap64 (bank * 64) = bank * 64" by (intro wrap64_id) linarith+
  from assms have w1: "wrap64 (bank * 64 + 1) = bank * 64 + 1" by (intro wrap64_id) linarith+
  from assms have w2: "wrap64 (bank * 64 + 63) = bank * 64 + 63" by (intro wrap64_id) linarith+
  have "getBeaconBankSquawks_loop (bank * 64 + 1) (bank * 64 + 63) {} =
      Some ({} \<union> {bank * 64 + 1..bank * 64 + 63})"
    using assms by (intro getBeaconBankSquawks_loop_returns) linarith+
  then show ?thesis by (simp add: getBeaconBankSquawks_def w w1 w2)
qed

text \<open>
  Outside these bank numbers the code behaves otherwise: for the bank \<^verbatim>\<open>2^57\<close> the
  product wraps around and the pool holds negative codes, and for the bank
  \<^verbatim>\<open>2^57 - 1\<close> the bound is the largest \<^verbatim>\<open>int\<close> and the loop does not end.
\<close>

lemma getBeaconBankSquawks_loop_never_returns:
  assumes "getBeaconBankSquawks_loop i hi sq = Some r"
  shows "hi = 9223372036854775807 \<longrightarrow> \<not> i \<le> 9223372036854775807"
proof (rule getBeaconBankSquawks_loop.raw_induct
    [where P = "\<lambda>i hi sq r. hi = 9223372036854775807 \<longrightarrow> \<not> i \<le> 9223372036854775807"
       and i = i and hi = hi and sq = sq and y = r])
  fix f :: "int \<Rightarrow> int \<Rightarrow> int set \<Rightarrow> int set option" and j h s y
  assume IH: "\<And>j h s y. f j h s = Some y \<Longrightarrow>
      h = 9223372036854775807 \<longrightarrow> \<not> j \<le> 9223372036854775807"
    and eq: "(if j \<le> h then f (wrap64 (j + 1)) h (insert j s) else Some s) = Some y"
  from wrap64_range[of "j + 1"] have w: "wrap64 (j + 1) \<le> 9223372036854775807" by linarith
  show "h = 9223372036854775807 \<longrightarrow> \<not> j \<le> 9223372036854775807"
  proof (intro impI notI)
    assume h: "h = 9223372036854775807" and j: "j \<le> 9223372036854775807"
    with eq have "f (wrap64 (j + 1)) h (insert j s) = Some y" by simp
    from IH[OF this] h w show False by simp
  qed
next
  show "getBeaconBankSquawks_loop i hi sq = Some r" by fact
qed

lemma getBeaconBankSquawks_wraps:
  "getBeaconBankSquawks 144115188075855872 =
     Some {- 9223372036854775807..- 9223372036854775745}"
proof -
  have "getBeaconBankSquawks_loop (- 9223372036854775807) (- 9223372036854775745) {} =
      Some ({} \<union> {- 9223372036854775807..- 9223372036854775745})"
    by (intro getBeaconBankSquawks_loop_returns) simp_all
  then show ?thesis by (simp add: getBeaconBankSquawks_def wrap64_def)
qed

lemma getBeaconBankSquawks_never_returns: "getBeaconBankSquawks 144115188075855871 = None"
proof -
  have w: "wrap64 (wrap64 (144115188075855871 * 64) + 1) = 9223372036854775745"
    "wrap64 (wrap64 (144115188075855871 * 64) + 63) = 9223372036854775807"
    by (simp_all add: wrap64_def)
  have "getBeaconBankSquawks_loop 9223372036854775745 9223372036854775807 {} = None"
    using getBeaconBankSquawks_loop_never_returns[of 9223372036854775745 9223372036854775807 "{}"]
    by (cases "getBeaconBankSquawks_loop 9223372036854775745 9223372036854775807 {}") auto
  then show ?thesis
    unfolding getBeaconBankSquawks_def w .
qed

lemma MakeERAMComputer_stars_pool:
  assumes "MakeERAMComputer spc adaptations tracons fac bank = Some (Inr ec)"
    and "eram_STARSComputers ec ident = Some sc"
  shows "getBeaconBankSquawks bank = Some (stars_AvailableSquawks sc)"
proof -
  from assms(1) obtain pool where pool: "getBeaconBankSquawks bank = Some pool"
    and ec: "eram_STARSComputers ec =
       map_of (map (\<lambda>t. (fst t, MakeSTARSComputer (fst t) pool))
                 (filter (\<lambda>t. snd t = fac) tracons))"
    by (auto simp: MakeERAMComputer_def split: option.splits)
  from assms(2) have "(ident, sc) \<in> set (map (\<lambda>t. (fst t, MakeSTARSComputer (fst t) pool))
                 (filter (\<lambda>t. snd t = fac) tracons))"
    unfolding ec by (rule map_of_SomeD)
  then have "stars_AvailableSquawks sc = pool" by (auto simp: MakeSTARSComputer_def)
  with pool show ?thesis by simp
qed

text \<open>
  Claim C8, as the code has it.  At construction the NAS-wide pool of an ERAM
  computer holds exactly the codes from \<^verbatim>\<open>0o1001\<close> (513) to \<^verbatim>\<open>0o7777\<close> (4095) that
  are neither special-purpose codes nor the VFR code \<^verbatim>\<open>0o1200\<close> (640).  For a
  bank number from \<^verbatim>\<open>-2^57\<close> to \<^verbatim>\<open>2^57 - 2\<close> (the numbers for which the 64-bit
  arithmetic of the loop does not wrap around; the two-digit bank numbers are
  among them), the bank pool is built, it is the contiguous range
  \<^verbatim>\<open>bank*0o100 + 1\<close> to \<^verbatim>\<open>bank*0o100 + 0o77\<close>, 63 codes, the bank's first code
  (the one ending in 00) not among them; the constructor returns a computer for
  a facility with an adaptation, and every STARS computer of the computer it
  returns has that pool.
\<close>

theorem pools_at_construction:
  "getValidSquawkCodes SquawkIsSPC =
     {i. 513 \<le> i \<and> i \<le> 4095 \<and> \<not> fst (SquawkIsSPC i) \<and> i \<noteq> 640} \<and>
   (- 144115188075855872 \<le> bank \<and> bank < 144115188075855871 \<longrightarrow>
      getBeaconBankSquawks bank = Some {bank * 64 + 1..bank * 64 + 63} \<and>
      map_option card (getBeaconBankSquawks bank) = Some 63 \<and>
      map_option (\<lambda>pool. bank * 64 \<in> pool) (getBeaconBankSquawks bank) = Some False \<and>
      (adaptations fac \<noteq> None \<longrightarrow>
         (\<exists>made. MakeERAMComputer SquawkIsSPC adaptations tracons fac bank = Some (Inr made))) \<and>
      (MakeERAMComputer SquawkIsSPC adaptations tracons fac bank = Some (Inr ec) \<longrightarrow>
         eram_AvailableSquawks ec =
           {i. 513 \<le> i \<and> i \<le> 4095 \<and> \<not> fst (SquawkIsSPC i) \<and> i \<noteq> 640} \<and>
         (\<forall>ident sc. eram_STARSComputers ec ident = Some sc \<longrightarrow>
            stars_AvailableSquawks sc = {bank * 64 + 1..bank * 64 + 63})))"
proof -
  have valid: "getValidSquawkCodes SquawkIsSPC =
     {i. 513 \<le> i \<and> i \<le> 4095 \<and> \<not> fst (SquawkIsSPC i) \<and> i \<noteq> 640}"
    by (rule getValidSquawkCodes_eq)
  have bank: "getBeaconBankSquawks bank = Some {bank * 64 + 1..bank * 64 + 63} \<and>
      map_option card (getBeaconBankSquawks bank) = Some 63 \<and>
      map_option (\<lambda>pool. bank * 64 \<in> pool) (getBeaconBankSquawks bank) = Some False \<and>
      (adaptations fac \<noteq> None \<longrightarrow>
         (\<exists>made. MakeERAMComputer SquawkIsSPC adaptations tracons fac bank = Some (Inr made))) \<and>
      (MakeERAMComputer SquawkIsSPC adaptations tracons fac bank = Some (Inr ec) \<longrightarrow>
         eram_AvailableSquawks ec =
           {i. 513 \<le> i \<and> i \<le> 4095 \<and> \<not> fst (SquawkIsSPC i) \<and> i \<noteq> 640} \<and>
         (\<forall>ident sc. eram_STARSComputers ec ident = Some sc \<longrightarrow>
            stars_AvailableSquawks sc = {bank * 64 + 1..bank * 64 + 63}))"
    if b: "- 144115188075855872 \<le> bank" "bank < 144115188075855871"
  proof -
    have pool: "getBeaconBankSquawks bank = Some {bank * 64 + 1..bank * 64 + 63}"
      using b by (rule getBeaconBankSquawks_eq)
    have made: "\<exists>made. MakeERAMComputer SquawkIsSPC adaptations tracons fac bank = Some (Inr made)"
      if "adaptations fac \<noteq> None"
      using that by (auto simp: MakeERAMComputer_def pool)
    have nas: "eram_AvailableSquawks ec =
           {i. 513 \<le> i \<and> i \<le> 4095 \<and> \<not> fst (SquawkIsSPC i) \<and> i \<noteq> 640}"
      if "MakeERAMComputer SquawkIsSPC adaptations tracons fac bank = Some (Inr ec)"
      using that by (auto simp: MakeERAMComputer_def valid split: option.splits)
    have stars: "stars_AvailableSquawks sc = {bank * 64 + 1..bank * 64 + 63}"
      if "MakeERAMComputer SquawkIsSPC adaptations tracons fac bank = Some (Inr ec)"
        and "eram_STARSComputers ec ident = Some sc" for ident sc
      using MakeERAMComputer_stars_pool[OF that] pool by simp
    from pool made nas stars show ?thesis by (simp add: pool)
  qed
  with valid show ?thesis by blast
qed

theorem pools_at_construction_witness:
  "- 144115188075855872 \<le> (1 :: int) \<and> (1 :: int) < 144115188075855871 \<and>
   [''ZNY'' \<mapsto> example_adaptation] ''ZNY'' \<noteq> None \<and>
   getBeaconBankSquawks 1 = Some {65..127} \<and>
   MakeERAMComputer (\<lambda>i. (i = 4032, [])) [''ZNY'' \<mapsto> example_adaptation]
      [(''N90'', ''ZNY''), (''A90'', ''ZBW'')] ''ZNY'' 1 = Some (Inr example_made) \<and>
   eram_STARSComputers example_made ''N90'' = Some example_stars \<and>
   eram_AvailableSquawks example_made = {i. 513 \<le> i \<and> i \<le> 4095 \<and> i \<noteq> 4032 \<and> i \<noteq> 640} \<and>
   stars_AvailableSquawks example_stars = {65..127}"
proof -
  note t = pools_at_construction[where bank = 1 and SquawkIsSPC = "\<lambda>i. (i = 4032, [])"
      and adaptations = "[''ZNY'' \<mapsto> example_adaptation]" and fac = "''ZNY''"
      and tracons = "[(''N90'', ''ZNY''), (''A90'', ''ZBW'')]" and ec = example_made]
  from t have pool: "getBeaconBankSquawks 1 = Some {65..127}" by simp
  from t obtain made where
    "MakeERAMComputer (\<lambda>i. (i = 4032, [])) [''ZNY'' \<mapsto> example_adaptation]
      [(''N90'', ''ZNY''), (''A90'', ''ZBW'')] ''ZNY'' 1 = Some (Inr made)" by auto
  then have m: "MakeERAMComputer (\<lambda>i. (i = 4032, [])) [''ZNY'' \<mapsto> example_adaptation]
      [(''N90'', ''ZNY''), (''A90'', ''ZBW'')] ''ZNY'' 1 = Some (Inr example_made)"
    by (simp add: example_made_def)
  have s: "eram_STARSComputers example_made ''N90'' = Some example_stars"
    by (simp add: example_made_def MakeERAMComputer_def pool example_stars_def)
  from t m s pool show ?thesis by simp
qed

text \<open>
  The pool of bank 1 is the range from \<^verbatim>\<open>0o101\<close> (65) to \<^verbatim>\<open>0o177\<close> (127): it has 63
  codes, not 64, and neither \<^verbatim>\<open>0o100\<close> nor \<^verbatim>\<open>0o200\<close> is in it.
\<close>

theorem bank_pool_counterexample:
  "getBeaconBankSquawks 1 = Some {65..127} \<and>
   map_option card (getBeaconBankSquawks 1) = Some 63 \<and>
   map_option (\<lambda>pool. 64 \<in> pool) (getBeaconBankSquawks 1) = Some False \<and>
   map_option (\<lambda>pool. 128 \<in> pool) (getBeaconBankSquawks 1) = Some False"
proof -
  have "getBeaconBankSquawks 1 = Some {1 * 64 + 1..1 * 64 + 63}"
    by (rule getBeaconBankSquawks_eq) simp_all
  then show ?thesis by simp
qed

section \<open>Beacon code allocation\<close>

text \<open>
  Claim C1.  For the pool of an ERAM computer and for the pool of a STARS
  computer alike: whatever \<^verbatim>\<open>CreateSquawk\<close> returns, either there is no error, the
  code returned was in \<^verbatim>\<open>AvailableSquawks\<close> and the call removed exactly that code,
  or the error is the pool-exhausted error, the code is 0 and nothing changed;
  the error is returned exactly when the pool is empty; when a successful call
  is followed at once by another successful call, the two codes differ; and
  the call always returns.
\<close>

theorem CreateSquawk_pool_contract:
  "(ERAMComputer_CreateSquawk c (sq, err, c') \<longrightarrow>
      (err = None \<and> sq \<in> eram_AvailableSquawks c \<and>
         c' = c\<lparr>eram_AvailableSquawks := eram_AvailableSquawks c - {sq}\<rparr>
       \<or> err = Some ErrNoMoreAvailableSquawkCodes \<and> sq = 0 \<and> c' = c) \<and>
      ((err = Some ErrNoMoreAvailableSquawkCodes) = (eram_AvailableSquawks c = {})) \<and>
      (\<forall>sq2 c2. ERAMComputer_CreateSquawk c' (sq2, None, c2) \<longrightarrow> err = None \<longrightarrow> sq2 \<noteq> sq)) \<and>
   (\<exists>r. ERAMComputer_CreateSquawk c r) \<and>
   (STARSComputer_CreateSquawk s (q, serr, s') \<longrightarrow>
      (serr = None \<and> q \<in> stars_AvailableSquawks s \<and>
         s' = s\<lparr>stars_AvailableSquawks := stars_AvailableSquawks s - {q}\<rparr>
       \<or> serr = Some ErrNoMoreAvailableSquawkCodes \<and> q = 0 \<and> s' = s) \<and>
      ((serr = Some ErrNoMoreAvailableSquawkCodes) = (stars_AvailableSquawks s = {})) \<and>
      (\<forall>q2 s2. STARSComputer_CreateSquawk s' (q2, None, s2) \<longrightarrow> serr = None \<longrightarrow> q2 \<noteq> q)) \<and>
   (\<exists>r. STARSComputer_CreateSquawk s r)"
proof -
  have e1: "\<exists>r. ERAMComputer_CreateSquawk c r"
  proof (cases "eram_AvailableSquawks c = {}")
    case True
    then show ?thesis by (blast intro: ERAM_squawk_exhausted)
  next
    case False
    then obtain x where "x \<in> eram_AvailableSquawks c" by blast
    then show ?thesis by (blast intro: ERAM_squawk_found)
  qed
  have s1: "\<exists>r. STARSComputer_CreateSquawk s r"
  proof (cases "stars_AvailableSquawks s = {}")
    case True
    then show ?thesis by (blast intro: STARS_squawk_exhausted)
  next
    case False
    then obtain x where "x \<in> stars_AvailableSquawks s" by blast
    then show ?thesis by (blast intro: STARS_squawk_found)
  qed
  have e2: "ERAMComputer_CreateSquawk c (sq, err, c') \<longrightarrow>
      (err = None \<and> sq \<in> eram_AvailableSquawks c \<and>
         c' = c\<lparr>eram_AvailableSquawks := eram_AvailableSquawks c - {sq}\<rparr>
       \<or> err = Some ErrNoMoreAvailableSquawkCodes \<and> sq = 0 \<and> c' = c) \<and>
      ((err = Some ErrNoMoreAvailableSquawkCodes) = (eram_AvailableSquawks c = {})) \<and>
      (\<forall>sq2 c2. ERAMComputer_CreateSquawk c' (sq2, None, c2) \<longrightarrow> err = None \<longrightarrow> sq2 \<noteq> sq)"
    by (auto elim!: ERAMComputer_CreateSquawk.cases)
  have s2: "STARSComputer_CreateSquawk s (q, serr, s') \<longrightarrow>
      (serr = None \<and> q \<in> stars_AvailableSquawks s \<and>
         s' = s\<lparr>stars_AvailableSquawks := stars_AvailableSquawks s - {q}\<rparr>
       \<or> serr = Some ErrNoMoreAvailableSquawkCodes \<and> q = 0 \<and> s' = s) \<and>
      ((serr = Some ErrNoMoreAvailableSquawkCodes) = (stars_AvailableSquawks s = {})) \<and>
      (\<forall>q2 s2. STARSComputer_CreateSquawk s' (q2, None, s2) \<longrightarrow> serr = None \<longrightarrow> q2 \<noteq> q)"
    by (auto elim!: STARSComputer_CreateSquawk.cases)
  from e1 e2 s1 s2 show ?thesis by blast
qed
text \<open>
  Pools of two codes: two calls give the two codes, one after the other, and
  the third call gives the error, for the empty pool.
\<close>

theorem CreateSquawk_pool_contract_witness:
  "ERAMComputer_CreateSquawk example_eram
     (513, None, example_eram\<lparr>eram_AvailableSquawks := {514}\<rparr>) \<and>
   513 \<in> eram_AvailableSquawks example_eram \<and>
   ERAMComputer_CreateSquawk (example_eram\<lparr>eram_AvailableSquawks := {514}\<rparr>)
     (514, None, example_eram\<lparr>eram_AvailableSquawks := {}\<rparr>) \<and>
   (514 :: int) \<noteq> 513 \<and>
   ERAMComputer_CreateSquawk (example_eram\<lparr>eram_AvailableSquawks := {}\<rparr>)
     (0, Some ErrNoMoreAvailableSquawkCodes, example_eram\<lparr>eram_AvailableSquawks := {}\<rparr>) \<and>
   eram_AvailableSquawks (example_eram\<lparr>eram_AvailableSquawks := {}\<rparr>) = {} \<and>
   STARSComputer_CreateSquawk (example_stars\<lparr>stars_AvailableSquawks := {65, 66}\<rparr>)
     (65, None, example_stars\<lparr>stars_AvailableSquawks := {66}\<rparr>) \<and>
   65 \<in> stars_AvailableSquawks (example_stars\<lparr>stars_AvailableSquawks := {65, 66}\<rparr>) \<and>
   STARSComputer_CreateSquawk (example_stars\<lparr>stars_AvailableSquawks := {66}\<rparr>)
     (66, None, example_stars\<lparr>stars_AvailableSquawks := {}\<rparr>) \<and>
   (66 :: int) \<noteq> 65 \<and>
   STARSComputer_CreateSquawk (example_stars\<lparr>stars_AvailableSquawks := {}\<rparr>)
     (0, Some ErrNoMoreAvailableSquawkCodes, example_stars\<lparr>stars_AvailableSquawks := {}\<rparr>) \<and>
   stars_AvailableSquawks (example_stars\<lparr>stars_AvailableSquawks := {}\<rparr>) = {}"
proof -
  let ?e2 = "example_eram" and ?e1 = "example_eram\<lparr>eram_AvailableSquawks := {514}\<rparr>"
    and ?e0 = "example_eram\<lparr>eram_AvailableSquawks := {}\<rparr>"
  let ?s2 = "example_stars\<lparr>stars_AvailableSquawks := {65, 66}\<rparr>"
    and ?s1 = "example_stars\<lparr>stars_AvailableSquawks := {66}\<rparr>"
    and ?s0 = "example_stars\<lparr>stars_AvailableSquawks := {}\<rparr>"
  have p: "eram_AvailableSquawks ?e2 = {513, 514}"
    by (simp add: example_eram_def)
  have e21: "ERAMComputer_CreateSquawk ?e2 (513, None, ?e1)"
    using ERAM_squawk_found[of 513 ?e2] p by (simp add: insert_Diff_if)
  have e10: "ERAMComputer_CreateSquawk ?e1 (514, None, ?e0)"
    using ERAM_squawk_found[of 514 ?e1] by simp
  have e00: "ERAMComputer_CreateSquawk ?e0 (0, Some ErrNoMoreAvailableSquawkCodes, ?e0)"
    using ERAM_squawk_exhausted[of ?e0] by simp
  have s21: "STARSComputer_CreateSquawk ?s2 (65, None, ?s1)"
    using STARS_squawk_found[of 65 ?s2] by (simp add: insert_Diff_if)
  have s10: "STARSComputer_CreateSquawk ?s1 (66, None, ?s0)"
    using STARS_squawk_found[of 66 ?s1] by simp
  have s00: "STARSComputer_CreateSquawk ?s0 (0, Some ErrNoMoreAvailableSquawkCodes, ?s0)"
    using STARS_squawk_exhausted[of ?s0] by simp
  note t1 = CreateSquawk_pool_contract[where c = ?e2 and sq = 513 and err = None and c' = ?e1
      and s = ?s2 and q = 65 and serr = None and s' = ?s1]
  note t0 = CreateSquawk_pool_contract[where c = ?e0 and sq = 0
      and err = "Some ErrNoMoreAvailableSquawkCodes" and c' = ?e0
      and s = ?s0 and q = 0 and serr = "Some ErrNoMoreAvailableSquawkCodes" and s' = ?s0]
  from t1 e21 e10 s21 s10 have d: "(514 :: int) \<noteq> 513" "(66 :: int) \<noteq> 65"
    "513 \<in> eram_AvailableSquawks ?e2" "65 \<in> stars_AvailableSquawks ?s2"
    by blast+
  from t0 e00 s00 have z: "eram_AvailableSquawks ?e0 = {}" "stars_AvailableSquawks ?s0 = {}"
    by blast+
  from e21 e10 e00 s21 s10 s00 d z show ?thesis by blast
qed

section \<open>The STARS computer: handling of messages\<close>

text \<open>
  Claim C2.  A STARS computer handling an InitiateTransfer message: with no
  flight plan under the message's beacon code and no track entry under its
  identifier, the computer is unchanged and a transfer-rejected event is
  posted; with a flight plan under the beacon code, a transfer-accepted event
  is posted, the plan leaves \<^verbatim>\<open>ContainedPlans\<close>, and the identifier gets a track
  entry with the message's owner and handoff controller and that plan.
\<close>

theorem STARS_InitiateTransfer_outcome:
  assumes "msg_MessageType msg = InitiateTransfer"
  shows "(stars_ContainedPlans c (msg_BCN msg) = None \<and>
          stars_TrackInformation c (msg_Identifier msg) = None \<longrightarrow>
            STARS_handle msg (c, e) =
              (c, e @ [\<lparr>ev_Type = TransferRejectedEvent, ev_Callsign = msg_Identifier msg,
                        ev_ToController = msg_TrackOwner msg\<rparr>])) \<and>
         (stars_ContainedPlans c (msg_BCN msg) = Some fp \<longrightarrow>
            snd (STARS_handle msg (c, e)) =
              e @ [\<lparr>ev_Type = TransferAcceptedEvent, ev_Callsign = msg_Identifier msg,
                     ev_ToController = msg_TrackOwner msg\<rparr>] \<and>
            stars_ContainedPlans (fst (STARS_handle msg (c, e))) =
              (stars_ContainedPlans c)(msg_BCN msg := None) \<and>
            stars_TrackInformation (fst (STARS_handle msg (c, e))) =
              (stars_TrackInformation c)(msg_Identifier msg \<mapsto>
                 zero_TrackInformation
                   \<lparr>trk_TrackOwner := msg_TrackOwner msg,
                    trk_HandoffController := msg_HandoffController msg,
                    trk_FlightPlan := Some fp\<rparr>))"
  using assms by (simp add: STARS_handle_def MessageType_defs Post_def)

theorem STARS_InitiateTransfer_outcome_witness:
  "msg_MessageType example_transfer_msg = InitiateTransfer \<and>
   stars_ContainedPlans example_stars (msg_BCN example_transfer_msg) = None \<and>
   stars_TrackInformation example_stars (msg_Identifier example_transfer_msg) = None \<and>
   STARS_handle example_transfer_msg (example_stars, []) =
     (example_stars,
      [\<lparr>ev_Type = TransferRejectedEvent, ev_Callsign = ''AAL123'', ev_ToController = ''1A''\<rparr>]) \<and>
   stars_ContainedPlans example_stars_with_plan (msg_BCN example_transfer_msg) =
     Some (FlightPlanMessage_FlightPlan example_plan_msg) \<and>
   snd (STARS_handle example_transfer_msg (example_stars_with_plan, [])) =
     [\<lparr>ev_Type = TransferAcceptedEvent, ev_Callsign = ''AAL123'', ev_ToController = ''1A''\<rparr>] \<and>
   stars_ContainedPlans (fst (STARS_handle example_transfer_msg (example_stars_with_plan, []))) 313
     = None \<and>
   stars_TrackInformation (fst (STARS_handle example_transfer_msg (example_stars_with_plan, [])))
     ''AAL123'' =
     Some (zero_TrackInformation
             \<lparr>trk_TrackOwner := ''1A'', trk_HandoffController := ''2B'',
              trk_FlightPlan := Some (FlightPlanMessage_FlightPlan example_plan_msg)\<rparr>)"
proof -
  have t: "msg_MessageType example_transfer_msg = InitiateTransfer"
    by (simp add: example_transfer_msg_def)
  have f: "msg_BCN example_transfer_msg = 313" "msg_Identifier example_transfer_msg = ''AAL123''"
    "msg_TrackOwner example_transfer_msg = ''1A''"
    "msg_HandoffController example_transfer_msg = ''2B''"
    by (simp_all add: example_transfer_msg_def example_track_def msg_Identifier_def
          msg_TrackOwner_def msg_HandoffController_def)
  have n: "stars_ContainedPlans example_stars 313 = None"
    "stars_TrackInformation example_stars ''AAL123'' = None"
    by (simp_all add: example_stars_def MakeSTARSComputer_def)
  have p: "stars_ContainedPlans example_stars_with_plan 313 =
      Some (FlightPlanMessage_FlightPlan example_plan_msg)"
    by (simp add: example_stars_with_plan_def)
  from STARS_InitiateTransfer_outcome[OF t, where c = example_stars and e = "[]"]
    STARS_InitiateTransfer_outcome[OF t, where c = example_stars_with_plan and e = "[]"
      and fp = "FlightPlanMessage_FlightPlan example_plan_msg"] t n p
  show ?thesis by (simp add: f)
qed

text \<open>
  Claim C3.  A STARS computer handling an AcceptRecallTransfer message: without
  a track entry under the identifier nothing changes; with an entry whose owner
  differs from the message's owner, the entry takes the message's owner and an
  empty handoff controller (accept); with an entry of the same owner, the entry
  is deleted (recall).
\<close>

theorem STARS_AcceptRecallTransfer_outcome:
  assumes "msg_MessageType msg = AcceptRecallTransfer"
  shows "(stars_TrackInformation c (msg_Identifier msg) = None \<longrightarrow>
            STARS_handle msg (c, e) = (c, e)) \<and>
         (stars_TrackInformation c (msg_Identifier msg) = Some info \<and>
          msg_TrackOwner msg \<noteq> trk_TrackOwner info \<longrightarrow>
            STARS_handle msg (c, e) =
              (c\<lparr>stars_TrackInformation :=
                   (stars_TrackInformation c)(msg_Identifier msg \<mapsto>
                      info\<lparr>trk_TrackOwner := msg_TrackOwner msg, trk_HandoffController := []\<rparr>)\<rparr>,
               e)) \<and>
         (stars_TrackInformation c (msg_Identifier msg) = Some info \<and>
          msg_TrackOwner msg = trk_TrackOwner info \<longrightarrow>
            STARS_handle msg (c, e) =
              (c\<lparr>stars_TrackInformation :=
                   (stars_TrackInformation c)(msg_Identifier msg := None)\<rparr>, e))"
  using assms by (simp add: STARS_handle_def MessageType_defs)

theorem STARS_AcceptRecallTransfer_outcome_witness:
  "msg_MessageType example_accept_msg = AcceptRecallTransfer \<and>
   msg_MessageType example_recall_msg = AcceptRecallTransfer \<and>
   stars_TrackInformation example_stars ''AAL123'' = None \<and>
   STARS_handle example_accept_msg (example_stars, []) = (example_stars, []) \<and>
   stars_TrackInformation example_stars_with_track ''AAL123'' = Some example_stars_track \<and>
   msg_TrackOwner example_accept_msg \<noteq> trk_TrackOwner example_stars_track \<and>
   stars_TrackInformation (fst (STARS_handle example_accept_msg (example_stars_with_track, [])))
     ''AAL123'' =
     Some (example_stars_track\<lparr>trk_TrackOwner := ''3C'', trk_HandoffController := []\<rparr>) \<and>
   msg_TrackOwner example_recall_msg = trk_TrackOwner example_stars_track \<and>
   stars_TrackInformation (fst (STARS_handle example_recall_msg (example_stars_with_track, [])))
     ''AAL123'' = None"
proof -
  have t: "msg_MessageType example_accept_msg = AcceptRecallTransfer"
    "msg_MessageType example_recall_msg = AcceptRecallTransfer"
    by (simp_all add: example_accept_msg_def example_recall_msg_def)
  have f: "msg_Identifier example_accept_msg = ''AAL123''"
    "msg_Identifier example_recall_msg = ''AAL123''"
    "msg_TrackOwner example_accept_msg = ''3C''" "msg_TrackOwner example_recall_msg = ''1A''"
    "trk_TrackOwner example_stars_track = ''1A''"
    by (simp_all add: example_accept_msg_def example_recall_msg_def example_track_def
          msg_Identifier_def msg_TrackOwner_def example_stars_track_def)
  have n: "stars_TrackInformation example_stars ''AAL123'' = None"
    by (simp add: example_stars_def MakeSTARSComputer_def)
  have p: "stars_TrackInformation example_stars_with_track ''AAL123'' = Some example_stars_track"
    by (simp add: example_stars_with_track_def)
  from STARS_AcceptRecallTransfer_outcome[OF t(1), where c = example_stars and e = "[]"]
    STARS_AcceptRecallTransfer_outcome[OF t(1), where c = example_stars_with_track and e = "[]"
      and info = example_stars_track]
    STARS_AcceptRecallTransfer_outcome[OF t(2), where c = example_stars_with_track and e = "[]"
      and info = example_stars_track]
    t n p
  show ?thesis by (simp add: f)
qed

text \<open>
  Claim C9.  A STARS computer ignores a Plan message whose beacon code is 0 (the
  computer is unchanged), installs the plan of a Plan message with a non-zero
  code under that code, and installs the plan of an Amendment message with
  beacon code 0 under the code 0.
\<close>

theorem STARS_Plan_zero_code_ignored:
  "(msg_MessageType msg = Plan \<and> msg_BCN msg = 0 \<longrightarrow> STARS_handle msg (c, e) = (c, e)) \<and>
   (msg_MessageType msg = Plan \<and> msg_BCN msg \<noteq> 0 \<longrightarrow>
      stars_ContainedPlans (fst (STARS_handle msg (c, e))) (msg_BCN msg) =
        Some (FlightPlanMessage_FlightPlan msg)) \<and>
   (msg_MessageType msg = Amendment \<and> msg_BCN msg = 0 \<longrightarrow>
      stars_ContainedPlans (fst (STARS_handle msg (c, e))) 0 =
        Some (FlightPlanMessage_FlightPlan msg))"
  by (simp add: STARS_handle_def MessageType_defs)

theorem STARS_Plan_zero_code_ignored_witness:
  "msg_MessageType zero_FlightPlanMessage = Plan \<and> msg_BCN zero_FlightPlanMessage = 0 \<and>
   STARS_handle zero_FlightPlanMessage (example_stars, []) = (example_stars, []) \<and>
   msg_MessageType example_plan_msg = Plan \<and> msg_BCN example_plan_msg = 313 \<and>
   stars_ContainedPlans (fst (STARS_handle example_plan_msg (example_stars, []))) 313 =
     Some (FlightPlanMessage_FlightPlan example_plan_msg) \<and>
   msg_MessageType example_amendment_zero = Amendment \<and> msg_BCN example_amendment_zero = 0 \<and>
   stars_ContainedPlans (fst (STARS_handle example_amendment_zero (example_stars, []))) 0 =
     Some (FlightPlanMessage_FlightPlan example_amendment_zero)"
proof -
  have z: "msg_MessageType zero_FlightPlanMessage = Plan" "msg_BCN zero_FlightPlanMessage = 0"
    by (simp_all add: zero_FlightPlanMessage_def Plan_def)
  have p: "msg_MessageType example_plan_msg = Plan" "msg_BCN example_plan_msg = 313"
    by (simp_all add: example_plan_msg_def)
  have a: "msg_MessageType example_amendment_zero = Amendment" "msg_BCN example_amendment_zero = 0"
    by (simp_all add: example_amendment_zero_def zero_FlightPlanMessage_def)
  from STARS_Plan_zero_code_ignored[where msg = zero_FlightPlanMessage and c = example_stars
      and e = "[]"]
    STARS_Plan_zero_code_ignored[where msg = example_plan_msg and c = example_stars and e = "[]"]
    STARS_Plan_zero_code_ignored[where msg = example_amendment_zero and c = example_stars
      and e = "[]"] z p a
  show ?thesis by simp
qed


section \<open>Draining the mailbox\<close>

subsection \<open>What a drain leaves in the mailbox\<close>

lemma STARS_handle_mailbox:
  "stars_ReceivedMessages (fst (STARS_handle m st)) = stars_ReceivedMessages (fst st)"
  by (simp add: STARS_handle_def Let_def split: option.splits)

lemma fold_STARS_handle_mailbox:
  "stars_ReceivedMessages (fst (fold STARS_handle ms st)) = stars_ReceivedMessages (fst st)"
  by (induction ms arbitrary: st) (simp_all add: STARS_handle_mailbox)

text \<open>
  After a drain the mailbox of a STARS computer holds as many messages as
  before, each the zero value.
\<close>

theorem STARS_drain_leaves_zero_messages:
  "stars_ReceivedMessages (fst (SortReceivedMessages c e)) =
     replicate (length (stars_ReceivedMessages c)) zero_FlightPlanMessage"
  by (simp add: SortReceivedMessages_def Let_def fold_STARS_handle_mailbox clear_slice_def
        map_replicate_const)

text \<open>
  Claim C4, evaluated on the code.  A STARS computer whose mailbox holds one
  Cancellation message, and an ERAM computer whose mailbox holds one
  DepartureDM message, are drained once.  Neither mailbox is empty afterwards:
  each holds one zero-valued message, since \<^verbatim>\<open>clear\<close> zeroes the elements of a
  slice and keeps its length.
\<close>

theorem drain_leaves_zeroed_messages:
  "stars_ReceivedMessages
     (fst (SortReceivedMessages (example_stars\<lparr>stars_ReceivedMessages := [example_cancel_msg]\<rparr>) []))
     = [zero_FlightPlanMessage] \<and>
   SortMessages (example_eram\<lparr>eram_ReceivedMessages := slice_of_list [example_departure_msg]\<rparr>) 0
     = Inr (example_eram\<lparr>eram_ReceivedMessages := slice_of_list [zero_FlightPlanMessage]\<rparr>) \<and>
   slice_elems (slice_of_list [zero_FlightPlanMessage]) = [zero_FlightPlanMessage]"
proof -
  have s: "stars_ReceivedMessages
     (fst (SortReceivedMessages (example_stars\<lparr>stars_ReceivedMessages := [example_cancel_msg]\<rparr>) []))
     = [zero_FlightPlanMessage]"
    by (simp add: SortReceivedMessages_def Let_def STARS_handle_mailbox clear_slice_def)
  have h: "ERAM_handle 0 example_departure_msg c = Inr c" for c
    by (simp add: ERAM_handle_def example_departure_msg_def MessageType_defs)
  have e: "SortMessages (example_eram\<lparr>eram_ReceivedMessages := slice_of_list [example_departure_msg]\<rparr>) 0
     = Inr (example_eram\<lparr>eram_ReceivedMessages := slice_of_list [zero_FlightPlanMessage]\<rparr>)"
    by (simp add: SortMessages_def slice_of_list_def h slice_clear_def)
  have v: "slice_elems (slice_of_list [zero_FlightPlanMessage]) = [zero_FlightPlanMessage]"
    by (simp add: slice_elems_def slice_of_list_def)
  from s e v show ?thesis by blast
qed

text \<open>
  Claim C6, evaluated on the code.  An ERAM mailbox with a Plan message of
  beacon code 0 followed by a well-formed Plan message: the drain ends in
  \<^verbatim>\<open>panic("zero squawk")\<close> at the first message and the second is never handled.
  The zero-valued message that a drain leaves behind is such a Plan message:
  after draining a single DepartureDM message, the next drain of the same
  computer panics.
\<close>

theorem zero_squawk_plan_aborts_drain:
  "SortMessages
     (example_eram\<lparr>eram_ReceivedMessages := slice_of_list [zero_FlightPlanMessage, example_plan_msg]\<rparr>) 0
     = Inl ZeroSquawk \<and>
   SortMessages (example_eram\<lparr>eram_ReceivedMessages := slice_of_list [example_departure_msg]\<rparr>) 0
     = Inr (example_eram\<lparr>eram_ReceivedMessages := slice_of_list [zero_FlightPlanMessage]\<rparr>) \<and>
   SortMessages (example_eram\<lparr>eram_ReceivedMessages := slice_of_list [zero_FlightPlanMessage]\<rparr>) 0
     = Inl ZeroSquawk"
proof -
  have z: "ERAM_handle 0 zero_FlightPlanMessage c = Inl ZeroSquawk" for c
    by (simp add: ERAM_handle_def ERAM_handle_Plan_def FlightPlanMessage_FlightPlan_def
          zero_FlightPlanMessage_def Plan_def Let_def)
  have h: "ERAM_handle 0 example_departure_msg c = Inr c" for c
    by (simp add: ERAM_handle_def example_departure_msg_def MessageType_defs)
  have a: "SortMessages
     (example_eram\<lparr>eram_ReceivedMessages := slice_of_list [zero_FlightPlanMessage, example_plan_msg]\<rparr>) 0
     = Inl ZeroSquawk"
    by (simp add: SortMessages_def slice_of_list_def z)
  have b: "SortMessages (example_eram\<lparr>eram_ReceivedMessages := slice_of_list [example_departure_msg]\<rparr>) 0
     = Inr (example_eram\<lparr>eram_ReceivedMessages := slice_of_list [zero_FlightPlanMessage]\<rparr>)"
    by (simp add: SortMessages_def slice_of_list_def h slice_clear_def)
  have c: "SortMessages (example_eram\<lparr>eram_ReceivedMessages := slice_of_list [zero_FlightPlanMessage]\<rparr>) 0
     = Inl ZeroSquawk"
    by (simp add: SortMessages_def slice_of_list_def z)
  from a b c show ?thesis by blast
qed

subsection \<open>The ERAM handler of AcceptRecallTransfer\<close>

text \<open>
  Claim C10.  An ERAM computer handling an AcceptRecallTransfer message whose
  coordination fix is in the adaptation: the handler ends in a nil pointer
  dereference exactly when there is no track entry with a non-nil flight plan
  under the message's identifier, and it returns normally exactly when there is
  one.
\<close>

theorem ERAM_AcceptRecallTransfer_nil_precondition:
  assumes "msg_MessageType msg = AcceptRecallTransfer"
    and "map_of (CoordinationFixes (eram_Adaptation c)) (msg_CoordinationFix msg) = Some fixes"
  shows "(ERAM_handle simTime msg c = Inl NilPointerDereference) =
           (\<nexists>info a. eram_TrackInformation c (msg_Identifier msg) = Some info \<and>
                      trk_FlightPlan info = Some a) \<and>
         (\<exists>c'. ERAM_handle simTime msg c = Inr c') =
           (\<exists>info a. eram_TrackInformation c (msg_Identifier msg) = Some info \<and>
                      trk_FlightPlan info = Some a)"
proof -
  have h: "ERAM_handle simTime msg c = ERAM_handle_AcceptRecallTransfer msg c"
    using assms(1) by (simp add: ERAM_handle_def MessageType_defs)
  show ?thesis
  proof (cases "eram_TrackInformation c (msg_Identifier msg)")
    case None
    with assms(2) show ?thesis
      by (simp add: h ERAM_handle_AcceptRecallTransfer_def)
  next
    case (Some info)
    show ?thesis
    proof (cases "trk_FlightPlan info")
      case None
      with Some assms(2) show ?thesis
        by (simp add: h ERAM_handle_AcceptRecallTransfer_def Let_def)
    next
      case (Some a)
      with \<open>eram_TrackInformation c (msg_Identifier msg) = Some info\<close> assms(2) show ?thesis
        by (simp add: h ERAM_handle_AcceptRecallTransfer_def Let_def split: sum.splits)
    qed
  qed
qed

theorem ERAM_AcceptRecallTransfer_nil_precondition_witness:
  "msg_MessageType example_recall_msg = AcceptRecallTransfer \<and>
   map_of (CoordinationFixes (eram_Adaptation example_eram)) (msg_CoordinationFix example_recall_msg)
     = Some (\<lambda>alt. Inr \<lparr>af_FromFacility = ''ZNY'', af_ToFacility = ''N90''\<rparr>) \<and>
   eram_TrackInformation example_eram (msg_Identifier example_recall_msg) = None \<and>
   ERAM_handle 0 example_recall_msg example_eram = Inl NilPointerDereference \<and>
   eram_TrackInformation example_eram_with_track (msg_Identifier example_recall_msg)
     = Some example_eram_track \<and>
   trk_FlightPlan example_eram_track = Some 0 \<and>
   ERAM_handle 0 example_recall_msg example_eram_with_track \<noteq> Inl NilPointerDereference"
proof -
  have t: "msg_MessageType example_recall_msg = AcceptRecallTransfer"
    by (simp add: example_recall_msg_def)
  have f: "msg_Identifier example_recall_msg = ''AAL123''"
    "msg_CoordinationFix example_recall_msg = ''DIXIE''"
    by (simp_all add: example_recall_msg_def example_track_def msg_Identifier_def)
  have m: "map_of (CoordinationFixes (eram_Adaptation example_eram)) ''DIXIE''
     = Some (\<lambda>alt. Inr \<lparr>af_FromFacility = ''ZNY'', af_ToFacility = ''N90''\<rparr>)"
    "map_of (CoordinationFixes (eram_Adaptation example_eram_with_track)) ''DIXIE''
     = Some (\<lambda>alt. Inr \<lparr>af_FromFacility = ''ZNY'', af_ToFacility = ''N90''\<rparr>)"
    by (simp_all add: example_eram_def example_eram_with_track_def example_adaptation_def)
  have n: "eram_TrackInformation example_eram ''AAL123'' = None"
    by (simp add: example_eram_def)
  have p: "eram_TrackInformation example_eram_with_track ''AAL123'' = Some example_eram_track"
    "trk_FlightPlan example_eram_track = Some 0"
    by (simp_all add: example_eram_with_track_def example_eram_track_def)
  from ERAM_AcceptRecallTransfer_nil_precondition[OF t, where c = example_eram and simTime = 0]
    ERAM_AcceptRecallTransfer_nil_precondition[OF t, where c = example_eram_with_track
      and simTime = 0] m n p t
  show ?thesis by (simp add: f)
qed

subsection \<open>The batch of a drain\<close>

lemma ToSTARSFacility_mailbox [simp]:
  "eram_ReceivedMessages (snd (ToSTARSFacility c f m)) = eram_ReceivedMessages c"
  by (simp add: ToSTARSFacility_def split: option.splits)

lemma SendMessageToERAM_mailbox [simp]:
  "eram_ReceivedMessages (snd (SendMessageToERAM c f m)) = eram_ReceivedMessages c"
  by (simp add: SendMessageToERAM_def split: option.splits)

lemma ERAM_forward_plan_mailbox [simp]:
  "eram_ReceivedMessages (ERAM_forward_plan m fp c) = eram_ReceivedMessages c"
  by (simp add: ERAM_forward_plan_def Let_def)

lemma ERAM_transfer_fix_mailbox:
  "ERAM_transfer_fix t entry st = Inr st' \<Longrightarrow>
   eram_ReceivedMessages (snd st') = eram_ReceivedMessages (snd st)"
  by (auto simp: ERAM_transfer_fix_def Let_def split: option.splits sum.splits if_splits)

lemma ERAM_transfer_fixes_mailbox:
  "ERAM_transfer_fixes t fs st = Inr st' \<Longrightarrow>
   eram_ReceivedMessages (snd st') = eram_ReceivedMessages (snd st)"
proof (induction fs arbitrary: st)
  case Nil
  then show ?case by simp
next
  case (Cons entry rest)
  then show ?case
    by (auto split: sum.splits dest!: ERAM_transfer_fix_mailbox)
qed

lemma ERAM_handle_Plan_array:
  "ERAM_handle_Plan m c = Inr c' \<Longrightarrow>
   sl_array (eram_ReceivedMessages c') = sl_array (eram_ReceivedMessages c)"
  by (auto simp: ERAM_handle_Plan_def Let_def split: if_splits)

lemma ERAM_handle_RequestFlightPlan_array:
  "ERAM_handle_RequestFlightPlan t m c = Inr c' \<Longrightarrow>
   sl_array (eram_ReceivedMessages c') = sl_array (eram_ReceivedMessages c)"
  by (auto simp: ERAM_handle_RequestFlightPlan_def slice_from1_def Let_def
           split: if_splits option.splits)

lemma ERAM_handle_InitiateTransfer_array:
  "ERAM_handle_InitiateTransfer t m c = Inr c' \<Longrightarrow>
   sl_array (eram_ReceivedMessages c') = sl_array (eram_ReceivedMessages c)"
  by (auto simp: ERAM_handle_InitiateTransfer_def Let_def split: sum.splits
           dest!: ERAM_transfer_fixes_mailbox)

lemma ERAM_handle_AcceptRecallTransfer_array:
  "ERAM_handle_AcceptRecallTransfer m c = Inr c' \<Longrightarrow>
   sl_array (eram_ReceivedMessages c') = sl_array (eram_ReceivedMessages c)"
  by (auto simp: ERAM_handle_AcceptRecallTransfer_def Let_def
           split: option.splits sum.splits if_splits)

lemma ERAM_handle_array:
  assumes "ERAM_handle t m c = Inr c'"
  shows "sl_array (eram_ReceivedMessages c') = sl_array (eram_ReceivedMessages c)"
  using assms unfolding ERAM_handle_def
  by (simp split: if_splits
        add: ERAM_handle_Plan_array ERAM_handle_RequestFlightPlan_array
             ERAM_handle_InitiateTransfer_array ERAM_handle_AcceptRecallTransfer_array)

lemma SortMessages_loop_in_order:
  "i + k \<le> length (sl_array (eram_ReceivedMessages c)) \<Longrightarrow>
   SortMessages_loop t i k c =
     process_in_arrival_order t (take k (drop i (sl_array (eram_ReceivedMessages c)))) c"
proof (induction k arbitrary: i c)
  case 0
  then show ?case by simp
next
  case (Suc k)
  let ?arr = "sl_array (eram_ReceivedMessages c)"
  from Suc.prems have lt: "i < length ?arr" by simp
  then have split: "take (Suc k) (drop i ?arr) = ?arr ! i # take k (drop (Suc i) ?arr)"
    by (simp add: take_Suc_conv_app_nth Cons_nth_drop_Suc[symmetric])
  show ?case
  proof (cases "ERAM_handle t (?arr ! i) c")
    case (Inl p)
    then show ?thesis by (simp add: split)
  next
    case (Inr c')
    then have arr: "sl_array (eram_ReceivedMessages c') = ?arr" by (rule ERAM_handle_array)
    with Suc.prems have "Suc i + k \<le> length (sl_array (eram_ReceivedMessages c'))" by simp
    from Suc.IH[OF this] Inr arr show ?thesis by (simp add: split)
  qed
qed

text \<open>
  The loop of the code and the drain contract.  The loop reads the backing array
  of the mailbox by index, over the window that the mailbox had when the drain
  started (Go evaluates the range expression once), while the handler of
  RequestFlightPlan re-slices the mailbox.  For every mailbox and every clock
  value, with or without a fatal condition, the drain computes what handling
  the starting batch message by message, in arrival order, computes, followed
  by the \<^verbatim>\<open>clear\<close>; and the handlers leave the backing array as it is.  So the
  removal of the queue head in the RequestFlightPlan case removes, changes and
  skips no message of the batch.
\<close>

theorem drain_is_processing_in_arrival_order:
  assumes "slice_ok (eram_ReceivedMessages c)"
  shows "SortMessages c simTime =
           (case process_in_arrival_order simTime (slice_elems (eram_ReceivedMessages c)) c of
              Inl p \<Rightarrow> Inl p
            | Inr d \<Rightarrow>
                Inr (d\<lparr>eram_ReceivedMessages :=
                          slice_clear zero_FlightPlanMessage (eram_ReceivedMessages d)\<rparr>)) \<and>
         (\<forall>d. process_in_arrival_order simTime (slice_elems (eram_ReceivedMessages c)) c = Inr d
              \<longrightarrow> sl_array (eram_ReceivedMessages d) = sl_array (eram_ReceivedMessages c))"
proof -
  let ?rm = "eram_ReceivedMessages c"
  from assms have "sl_start ?rm + sl_len ?rm \<le> length (sl_array ?rm)"
    by (simp add: slice_ok_def)
  then have loop: "SortMessages_loop simTime (sl_start ?rm) (sl_len ?rm) c =
      process_in_arrival_order simTime (slice_elems ?rm) c"
    unfolding slice_elems_def by (rule SortMessages_loop_in_order)
  have arr: "process_in_arrival_order simTime ms e = Inr e' \<Longrightarrow>
      sl_array (eram_ReceivedMessages e') = sl_array (eram_ReceivedMessages e)" for ms e e'
    by (induction ms arbitrary: e) (auto split: sum.splits dest: ERAM_handle_array)
  from loop have "SortMessages c simTime =
           (case process_in_arrival_order simTime (slice_elems ?rm) c of
              Inl p \<Rightarrow> Inl p
            | Inr d \<Rightarrow>
                Inr (d\<lparr>eram_ReceivedMessages :=
                          slice_clear zero_FlightPlanMessage (eram_ReceivedMessages d)\<rparr>))"
    by (simp add: SortMessages_def)
  with arr show ?thesis by blast
qed


lemmas example_defs =
  example_eram_batch_def example_eram_after_batch_def example_batch_def example_eram_def
  example_adaptation_def example_plan_msg_def example_request_msg_def example_departure_msg_def
  example_stars_def MakeSTARSComputer_def

lemma example_batch_in_order:
  "process_in_arrival_order 0 example_batch example_eram_batch =
     Inr (example_eram_after_batch
            \<lparr>eram_ReceivedMessages := \<lparr>sl_array = example_batch, sl_start = 1, sl_len = 2\<rparr>\<rparr>)"
  by (simp add: example_defs ERAM_handle_def ERAM_handle_Plan_def ERAM_forward_plan_def
        ERAM_handle_RequestFlightPlan_def ToSTARSFacility_def slice_from1_def slice_of_list_def
        FlightPlanMessage_FlightPlan_def zero_FlightPlanMessage_def MessageType_defs Let_def)

text \<open>
  A batch with a Plan message, a RequestFlightPlan message for the plan just
  installed and a DepartureDM message: the plan and then the answer to the
  request reach the mailbox of N90, in this order.
\<close>

theorem drain_is_processing_in_arrival_order_witness:
  "slice_ok (eram_ReceivedMessages example_eram_batch) \<and>
   slice_elems (eram_ReceivedMessages example_eram_batch) =
     [example_plan_msg, example_request_msg, example_departure_msg] \<and>
   process_in_arrival_order 0 [example_plan_msg, example_request_msg, example_departure_msg]
       example_eram_batch =
     Inr (example_eram_after_batch
            \<lparr>eram_ReceivedMessages := \<lparr>sl_array = example_batch, sl_start = 1, sl_len = 2\<rparr>\<rparr>) \<and>
   SortMessages example_eram_batch 0 =
     Inr (example_eram_after_batch
            \<lparr>eram_ReceivedMessages :=
               slice_clear zero_FlightPlanMessage
                 \<lparr>sl_array = example_batch, sl_start = 1, sl_len = 2\<rparr>\<rparr>) \<and>
   sl_array (eram_ReceivedMessages example_eram_batch) =
     [example_plan_msg, example_request_msg, example_departure_msg]"
proof -
  have ok: "slice_ok (eram_ReceivedMessages example_eram_batch)"
    by (simp add: slice_ok_def example_eram_batch_def slice_of_list_def)
  have el: "slice_elems (eram_ReceivedMessages example_eram_batch) =
     [example_plan_msg, example_request_msg, example_departure_msg]"
    by (simp add: slice_elems_def example_eram_batch_def slice_of_list_def example_batch_def)
  have ar: "sl_array (eram_ReceivedMessages example_eram_batch) =
     [example_plan_msg, example_request_msg, example_departure_msg]"
    by (simp add: example_eram_batch_def slice_of_list_def example_batch_def)
  have po: "process_in_arrival_order 0
       [example_plan_msg, example_request_msg, example_departure_msg] example_eram_batch =
     Inr (example_eram_after_batch
            \<lparr>eram_ReceivedMessages := \<lparr>sl_array = example_batch, sl_start = 1, sl_len = 2\<rparr>\<rparr>)"
    using example_batch_in_order by (simp add: example_batch_def)
  from drain_is_processing_in_arrival_order[OF ok, of 0] el po
  have dr: "SortMessages example_eram_batch 0 =
     Inr (example_eram_after_batch
            \<lparr>eram_ReceivedMessages :=
               slice_clear zero_FlightPlanMessage
                 \<lparr>sl_array = example_batch, sl_start = 1, sl_len = 2\<rparr>\<rparr>)"
    by simp
  from ok el po dr ar show ?thesis by (intro conjI)
qed

text \<open>
  Claim C5, evaluated on the code.  An ERAM mailbox that holds a Plan message
  with beacon code 0 and, behind it, a RequestFlightPlan message: the drain
  ends in the fatal condition \<^verbatim>\<open>panic("zero squawk")\<close> of the first message, and
  the RequestFlightPlan message, in the mailbox when the drain started, is
  never handled, where the claim has every message of the batch processed
  exactly once.  (Alone in the mailbox, the RequestFlightPlan message is handled
  and the drain returns.)
\<close>

theorem drain_abort_leaves_request_unprocessed:
  "slice_elems (slice_of_list [zero_FlightPlanMessage, example_request_msg]) =
     [zero_FlightPlanMessage, example_request_msg] \<and>
   SortMessages
     (example_eram\<lparr>eram_ReceivedMessages :=
        slice_of_list [zero_FlightPlanMessage, example_request_msg]\<rparr>) 0 = Inl ZeroSquawk \<and>
   SortMessages
     (example_eram\<lparr>eram_ReceivedMessages := slice_of_list [example_request_msg]\<rparr>) 0 =
     Inr (example_eram\<lparr>eram_ReceivedMessages :=
            \<lparr>sl_array = [example_request_msg], sl_start = 1, sl_len = 0\<rparr>\<rparr>)"
proof -
  have z: "ERAM_handle 0 zero_FlightPlanMessage c = Inl ZeroSquawk" for c
    by (simp add: ERAM_handle_def ERAM_handle_Plan_def FlightPlanMessage_FlightPlan_def
          zero_FlightPlanMessage_def Plan_def Let_def)
  have a: "slice_elems (slice_of_list [zero_FlightPlanMessage, example_request_msg]) =
     [zero_FlightPlanMessage, example_request_msg]"
    by (simp add: slice_elems_def slice_of_list_def)
  have b: "SortMessages
     (example_eram\<lparr>eram_ReceivedMessages :=
        slice_of_list [zero_FlightPlanMessage, example_request_msg]\<rparr>) 0 = Inl ZeroSquawk"
    by (simp add: SortMessages_def slice_of_list_def z)
  have c: "SortMessages
     (example_eram\<lparr>eram_ReceivedMessages := slice_of_list [example_request_msg]\<rparr>) 0 =
     Inr (example_eram\<lparr>eram_ReceivedMessages :=
            \<lparr>sl_array = [example_request_msg], sl_start = 1, sl_len = 0\<rparr>\<rparr>)"
    by (simp add: SortMessages_def slice_clear_def slice_of_list_def slice_from1_def
          ERAM_handle_def ERAM_handle_RequestFlightPlan_def example_request_msg_def
          example_eram_def zero_FlightPlanMessage_def MessageType_defs Let_def)
  from a b c show ?thesis by blast
qed

subsection \<open>Batches without fatal conditions\<close>

lemma ERAM_handle_Plan_len:
  "ERAM_handle_Plan m c = Inr c' \<Longrightarrow>
   sl_len (eram_ReceivedMessages c') = sl_len (eram_ReceivedMessages c)"
  by (auto simp: ERAM_handle_Plan_def Let_def split: if_splits)

lemma ERAM_handle_untracked:
  assumes "well_formed_untracked m" and "0 < sl_len (eram_ReceivedMessages c)"
  shows "\<exists>c'. ERAM_handle t m c = Inr c' \<and>
           sl_len (eram_ReceivedMessages c) \<le> Suc (sl_len (eram_ReceivedMessages c'))"
proof -
  consider (plan) "msg_MessageType m = Plan" "msg_BCN m \<noteq> 0"
    | (rf) "msg_MessageType m = RequestFlightPlan" "3 \<le> length (msg_SourceID m)"
    | (other) "msg_MessageType m \<noteq> Plan" "msg_MessageType m \<noteq> RequestFlightPlan"
        "msg_MessageType m \<noteq> InitiateTransfer" "msg_MessageType m \<noteq> AcceptRecallTransfer"
    using assms(1) by (auto simp: well_formed_untracked_def split: if_splits)
  then show ?thesis
  proof cases
    case plan
    then have "\<exists>c'. ERAM_handle_Plan m c = Inr c'"
      by (simp add: ERAM_handle_Plan_def FlightPlanMessage_FlightPlan_def Let_def)
    then obtain c' where c': "ERAM_handle_Plan m c = Inr c'" ..
    with plan(1) ERAM_handle_Plan_len[OF c'] show ?thesis
      by (simp add: ERAM_handle_def)
  next
    case rf
    with assms(2) show ?thesis
      by (simp add: ERAM_handle_def ERAM_handle_RequestFlightPlan_def slice_from1_def
            MessageType_defs Let_def split: option.splits)
  next
    case other
    then show ?thesis by (simp add: ERAM_handle_def)
  qed
qed

lemma SortMessages_loop_untracked:
  "i + k \<le> length (sl_array (eram_ReceivedMessages c)) \<Longrightarrow>
   k \<le> sl_len (eram_ReceivedMessages c) \<Longrightarrow>
   list_all well_formed_untracked (take k (drop i (sl_array (eram_ReceivedMessages c)))) \<Longrightarrow>
   \<exists>c'. SortMessages_loop t i k c = Inr c'"
proof (induction k arbitrary: i c)
  case 0
  then show ?case by simp
next
  case (Suc k)
  let ?arr = "sl_array (eram_ReceivedMessages c)"
  from Suc.prems(1) have lt: "i < length ?arr" by simp
  then have split: "take (Suc k) (drop i ?arr) = ?arr ! i # take k (drop (Suc i) ?arr)"
    by (simp add: take_Suc_conv_app_nth Cons_nth_drop_Suc[symmetric])
  with Suc.prems(3) have wf: "well_formed_untracked (?arr ! i)"
    and rest: "list_all well_formed_untracked (take k (drop (Suc i) ?arr))"
    by simp_all
  from Suc.prems(2) have "0 < sl_len (eram_ReceivedMessages c)" by simp
  from ERAM_handle_untracked[OF wf this, of t] obtain c' where
    h: "ERAM_handle t (?arr ! i) c = Inr c'"
    and len: "sl_len (eram_ReceivedMessages c) \<le> Suc (sl_len (eram_ReceivedMessages c'))"
    by blast
  from h have arr: "sl_array (eram_ReceivedMessages c') = ?arr" by (rule ERAM_handle_array)
  from Suc.prems(1) arr have 1: "Suc i + k \<le> length (sl_array (eram_ReceivedMessages c'))"
    by simp
  from Suc.prems(2) len have 2: "k \<le> sl_len (eram_ReceivedMessages c')" by simp
  from rest arr have 3: "list_all well_formed_untracked
      (take k (drop (Suc i) (sl_array (eram_ReceivedMessages c'))))" by simp
  from Suc.IH[OF 1 2 3] h show ?case by simp
qed

text \<open>
  A drain of an ERAM computer returns, with no fatal condition, when every
  message of the batch is of the kind above: unknown facilities, coordination
  fixes that do not resolve and flight plans that are not found do not stop
  it.
\<close>

theorem drain_of_well_formed_untracked_batch_returns:
  assumes "slice_ok (eram_ReceivedMessages c)"
    and "list_all well_formed_untracked (slice_elems (eram_ReceivedMessages c))"
  shows "\<exists>c'. SortMessages c simTime = Inr c'"
proof -
  let ?rm = "eram_ReceivedMessages c"
  from assms(1) have 1: "sl_start ?rm + sl_len ?rm \<le> length (sl_array ?rm)"
    by (simp add: slice_ok_def)
  from assms(2) have 3: "list_all well_formed_untracked
      (take (sl_len ?rm) (drop (sl_start ?rm) (sl_array ?rm)))"
    by (simp add: slice_elems_def)
  from SortMessages_loop_untracked[OF 1 _ 3, of simTime]
  obtain d where "SortMessages_loop simTime (sl_start ?rm) (sl_len ?rm) c = Inr d" by auto
  then show ?thesis by (simp add: SortMessages_def)
qed

theorem drain_of_well_formed_untracked_batch_returns_witness:
  "slice_ok (eram_ReceivedMessages example_eram_batch) \<and>
   list_all well_formed_untracked (slice_elems (eram_ReceivedMessages example_eram_batch)) \<and>
   (\<exists>c'. SortMessages example_eram_batch 0 = Inr c')"
proof -
  have ok: "slice_ok (eram_ReceivedMessages example_eram_batch)"
    by (simp add: slice_ok_def example_eram_batch_def slice_of_list_def)
  have wf: "list_all well_formed_untracked (slice_elems (eram_ReceivedMessages example_eram_batch))"
    by (simp add: slice_elems_def example_eram_batch_def slice_of_list_def example_batch_def
          well_formed_untracked_def example_plan_msg_def example_request_msg_def
          example_departure_msg_def MessageType_defs)
  from drain_of_well_formed_untracked_batch_returns[OF ok wf, of 0] ok wf
  show ?thesis by blast
qed

subsection \<open>The ERAM handler of InitiateTransfer\<close>

text \<open>
  With an adaptation of at least one coordination fix, an ERAM computer that
  handles an InitiateTransfer message ends in a nil pointer dereference when
  the track entry of the identifier has no flight plan: an entry that exists
  with a nil plan, or no entry and no plan under the beacon code in
  \<^verbatim>\<open>FlightPlans\<close>.
\<close>

theorem ERAM_InitiateTransfer_without_plan_panics:
  assumes "msg_MessageType msg = InitiateTransfer"
    and "CoordinationFixes (eram_Adaptation c) \<noteq> []"
    and "(case eram_TrackInformation c (msg_Identifier msg) of
            None \<Rightarrow> eram_FlightPlans c (msg_BCN msg)
          | Some info \<Rightarrow> trk_FlightPlan info) = None"
  shows "ERAM_handle simTime msg c = Inl NilPointerDereference"
proof -
  from assms(2) obtain entry rest where fs: "CoordinationFixes (eram_Adaptation c) = entry # rest"
    by (cases "CoordinationFixes (eram_Adaptation c)") auto
  have h: "ERAM_handle simTime msg c = ERAM_handle_InitiateTransfer simTime msg c"
    using assms(1) by (simp add: ERAM_handle_def MessageType_defs)
  from assms(3) show ?thesis
    unfolding h ERAM_handle_InitiateTransfer_def
    by (simp add: fs ERAM_transfer_fix_def Let_def split: option.splits)
qed

theorem ERAM_InitiateTransfer_without_plan_panics_witness:
  "msg_MessageType example_transfer_msg = InitiateTransfer \<and>
   CoordinationFixes (eram_Adaptation example_eram) \<noteq> [] \<and>
   eram_TrackInformation example_eram (msg_Identifier example_transfer_msg) = None \<and>
   eram_FlightPlans example_eram (msg_BCN example_transfer_msg) = None \<and>
   ERAM_handle 0 example_transfer_msg example_eram = Inl NilPointerDereference"
proof -
  have t: "msg_MessageType example_transfer_msg = InitiateTransfer"
    by (simp add: example_transfer_msg_def)
  have a: "CoordinationFixes (eram_Adaptation example_eram) \<noteq> []"
    by (simp add: example_eram_def example_adaptation_def)
  have n: "eram_TrackInformation example_eram (msg_Identifier example_transfer_msg) = None"
    "eram_FlightPlans example_eram (msg_BCN example_transfer_msg) = None"
    by (simp_all add: example_eram_def)
  from n have "(case eram_TrackInformation example_eram (msg_Identifier example_transfer_msg) of
            None \<Rightarrow> eram_FlightPlans example_eram (msg_BCN example_transfer_msg)
          | Some info \<Rightarrow> trk_FlightPlan info) = None" by simp
  from ERAM_InitiateTransfer_without_plan_panics[OF t a this, of 0] t a n
  show ?thesis by blast
qed

section \<open>Lookahead transmission\<close>

lemma ToSTARSFacility_frame [simp]:
  "eram_heap (snd (ToSTARSFacility c f m)) = eram_heap c"
  "eram_Adaptation (snd (ToSTARSFacility c f m)) = eram_Adaptation c"
  by (simp_all add: ToSTARSFacility_def split: option.splits)

lemma SendMessageToERAM_frame [simp]:
  "eram_heap (snd (SendMessageToERAM c f m)) = eram_heap c"
  "eram_Adaptation (snd (SendMessageToERAM c f m)) = eram_Adaptation c"
  by (simp_all add: SendMessageToERAM_def split: option.splits)

lemma SendFlightPlan_heap:
  assumes "map_of (CoordinationFixes (eram_Adaptation c)) (fp_CoordinationFix (eram_heap c a))
             = Some coordFix"
    and "coordFix (fp_Altitude (eram_heap c a)) = Inr adaptFix"
  shows "eram_heap (snd (SendFlightPlan artcc c a tracon t)) =
           (eram_heap c)(a := (eram_heap c a)\<lparr>fp_ContainedFacilities :=
              fp_ContainedFacilities (eram_heap c a) @ [af_ToFacility adaptFix]\<rparr>)"
    and "eram_Adaptation (snd (SendFlightPlan artcc c a tracon t)) = eram_Adaptation c"
  using assms by (simp_all add: SendFlightPlan_def Let_def)

lemma sendPlanIfReady_cases:
  "sendPlanIfReady artcc tracon t c a = c \<or>
   (\<exists>f. \<not> t + TransmitFPMessageTime < ct_Time (fp_CoordinationTime (eram_heap c a)) \<and>
        plan_destination c a = Some f \<and> f \<notin> set (fp_ContainedFacilities (eram_heap c a)) \<and>
        sendPlanIfReady artcc tracon t c a = snd (SendFlightPlan artcc c a tracon t) \<and>
        eram_heap (sendPlanIfReady artcc tracon t c a) =
          (eram_heap c)(a := (eram_heap c a)\<lparr>fp_ContainedFacilities :=
              fp_ContainedFacilities (eram_heap c a) @ [f]\<rparr>))"
  by (auto simp: sendPlanIfReady_def plan_destination_def Let_def SendFlightPlan_heap
           split: option.splits sum.splits)

lemma sendPlanIfReady_Adaptation [simp]:
  "eram_Adaptation (sendPlanIfReady artcc tracon t c a) = eram_Adaptation c"
  by (auto simp: sendPlanIfReady_def Let_def SendFlightPlan_heap split: option.splits sum.splits)

lemma sendPlanIfReady_early:
  "t + TransmitFPMessageTime < ct_Time (fp_CoordinationTime (eram_heap c a)) \<Longrightarrow>
   sendPlanIfReady artcc tracon t c a = c"
  by (simp add: sendPlanIfReady_def)

lemma sendPlanIfReady_recorded:
  "plan_destination c a = Some f \<Longrightarrow> f \<in> set (fp_ContainedFacilities (eram_heap c a)) \<Longrightarrow>
   sendPlanIfReady artcc tracon t c a = c"
  by (auto simp: sendPlanIfReady_def plan_destination_def Let_def split: option.splits sum.splits)

lemma plan_destination_cong:
  "eram_Adaptation c = eram_Adaptation c0 \<Longrightarrow>
   fp_CoordinationFix (eram_heap c a) = fp_CoordinationFix (eram_heap c0 a) \<Longrightarrow>
   fp_Altitude (eram_heap c a) = fp_Altitude (eram_heap c0 a) \<Longrightarrow>
   plan_destination c a = plan_destination c0 a"
  by (simp add: plan_destination_def split: option.splits)

lemma sent_at_most_once_sendPlanIfReady:
  assumes "sent_at_most_once c0 a c"
  shows "sent_at_most_once c0 a (sendPlanIfReady artcc tracon t c b)"
proof -
  let ?c' = "sendPlanIfReady artcc tracon t c b"
  from assms have ad: "eram_Adaptation c = eram_Adaptation c0"
    by (simp add: sent_at_most_once_def)
  have ad': "eram_Adaptation ?c' = eram_Adaptation c0"
    using ad by simp
  from sendPlanIfReady_cases[of artcc tracon t c b]
  consider (same) "?c' = c"
    | (sent) f where "plan_destination c b = Some f"
        "f \<notin> set (fp_ContainedFacilities (eram_heap c b))"
        "eram_heap ?c' =
          (eram_heap c)(b := (eram_heap c b)\<lparr>fp_ContainedFacilities :=
              fp_ContainedFacilities (eram_heap c b) @ [f]\<rparr>)"
    by blast
  then show ?thesis
  proof cases
    case same
    with assms show ?thesis by simp
  next
    case sent
    show ?thesis
    proof (cases "b = a")
      case False
      with sent(3) have "eram_heap ?c' a = eram_heap c a" by simp
      with assms ad' show ?thesis
        unfolding sent_at_most_once_def by simp
    next
      case True
      from assms consider (untouched) "eram_heap c a = eram_heap c0 a"
        | (once) g where "plan_destination c0 a = Some g"
            "eram_heap c a = (eram_heap c0 a)\<lparr>fp_ContainedFacilities :=
              fp_ContainedFacilities (eram_heap c0 a) @ [g]\<rparr>"
        by (auto simp: sent_at_most_once_def)
      then show ?thesis
      proof cases
        case untouched
        with ad have "plan_destination c a = plan_destination c0 a"
          by (intro plan_destination_cong) simp_all
        with sent(1) True have d0: "plan_destination c0 a = Some f" by simp
        from sent(2) True untouched
        have nin: "f \<notin> set (fp_ContainedFacilities (eram_heap c0 a))" by simp
        from sent(3) True untouched
        have "eram_heap ?c' a = (eram_heap c0 a)\<lparr>fp_ContainedFacilities :=
              fp_ContainedFacilities (eram_heap c0 a) @ [f]\<rparr>" by simp
        with d0 nin ad' show ?thesis
          unfolding sent_at_most_once_def by simp
      next
        case once
        from once(2) have "fp_CoordinationFix (eram_heap c a) = fp_CoordinationFix (eram_heap c0 a)"
          "fp_Altitude (eram_heap c a) = fp_Altitude (eram_heap c0 a)" by simp_all
        with ad have "plan_destination c a = plan_destination c0 a"
          by (rule plan_destination_cong)
        with once(1) sent(1) True have "f = g" by simp
        moreover from once(2) have "g \<in> set (fp_ContainedFacilities (eram_heap c a))" by simp
        ultimately have False using sent(2) True by simp
        then show ?thesis ..
      qed
    qed
  qed
qed

lemma sent_at_most_once_track:
  "sent_at_most_once c0 a c \<Longrightarrow>
   sent_at_most_once c0 a (SendFlightPlans_track artcc tracon t key c)"
proof -
  assume inv: "sent_at_most_once c0 a c"
  have del: "sent_at_most_once c0 a (c\<lparr>eram_TrackInformation := ti\<rparr>)" for ti
    using inv by (simp add: sent_at_most_once_def)
  show ?thesis
    by (simp add: SendFlightPlans_track_def del inv sent_at_most_once_sendPlanIfReady
          split: option.splits)
qed

lemma sent_at_most_once_plan:
  "sent_at_most_once c0 a c \<Longrightarrow>
   sent_at_most_once c0 a (SendFlightPlans_plan artcc tracon t key c)"
  by (simp add: SendFlightPlans_plan_def sent_at_most_once_sendPlanIfReady split: option.splits)

lemma sent_at_most_once_SendFlightPlans:
  assumes "sent_at_most_once c0 a c"
  shows "sent_at_most_once c0 a (SendFlightPlans artcc c tracon t trackOrder planOrder)"
proof -
  have tr: "sent_at_most_once c0 a d \<Longrightarrow>
      sent_at_most_once c0 a (fold (SendFlightPlans_track artcc tracon t) ks d)" for ks d
    by (induction ks arbitrary: d) (simp_all add: sent_at_most_once_track)
  have pl: "sent_at_most_once c0 a d \<Longrightarrow>
      sent_at_most_once c0 a (fold (SendFlightPlans_plan artcc tracon t) ks d)" for ks d
    by (induction ks arbitrary: d) (simp_all add: sent_at_most_once_plan)
  from assms show ?thesis
    unfolding SendFlightPlans_def by (intro pl tr)
qed

lemma sent_at_most_once_ticks:
  "sent_at_most_once c0 a c \<Longrightarrow>
   sent_at_most_once c0 a (SendFlightPlans_ticks artcc tracon ticks c)"
  unfolding SendFlightPlans_ticks_def
  by (induction ticks arbitrary: c) (simp_all add: sent_at_most_once_SendFlightPlans)


lemma early_sendPlanIfReady:
  assumes "eram_heap c a = h"
    and "t + TransmitFPMessageTime < ct_Time (fp_CoordinationTime h)"
  shows "eram_heap (sendPlanIfReady artcc tracon t c b) a = h"
proof (cases "b = a")
  case True
  with assms show ?thesis by (simp add: sendPlanIfReady_early)
next
  case False
  from sendPlanIfReady_cases[of artcc tracon t c b] False assms(1) show ?thesis by auto
qed

lemma early_SendFlightPlans:
  assumes "eram_heap c a = h"
    and "t + TransmitFPMessageTime < ct_Time (fp_CoordinationTime h)"
  shows "eram_heap (SendFlightPlans artcc c tracon t trackOrder planOrder) a = h"
proof -
  have st: "eram_heap d a = h \<Longrightarrow> eram_heap (SendFlightPlans_track artcc tracon t key d) a = h"
    for d key
    using assms(2)
    by (simp add: SendFlightPlans_track_def early_sendPlanIfReady split: option.splits)
  have sp: "eram_heap d a = h \<Longrightarrow> eram_heap (SendFlightPlans_plan artcc tracon t key d) a = h"
    for d key
    using assms(2)
    by (simp add: SendFlightPlans_plan_def early_sendPlanIfReady split: option.splits)
  have tr: "eram_heap d a = h \<Longrightarrow>
      eram_heap (fold (SendFlightPlans_track artcc tracon t) ks d) a = h" for ks d
    by (induction ks arbitrary: d) (simp_all add: st)
  have pl: "eram_heap d a = h \<Longrightarrow>
      eram_heap (fold (SendFlightPlans_plan artcc tracon t) ks d) a = h" for ks d
    by (induction ks arbitrary: d) (simp_all add: sp)
  from assms(1) show ?thesis
    unfolding SendFlightPlans_def by (intro pl tr)
qed

lemma early_ticks:
  "eram_heap c a = h \<Longrightarrow>
   \<forall>tick \<in> set ticks. fst tick + TransmitFPMessageTime < ct_Time (fp_CoordinationTime h) \<Longrightarrow>
   eram_heap (SendFlightPlans_ticks artcc tracon ticks c) a = h"
  unfolding SendFlightPlans_ticks_def
  by (induction ticks arbitrary: c) (simp_all add: early_SendFlightPlans)


lemma SendFlightPlan_state:
  assumes "plan_destination c a = Some g"
  shows "snd (SendFlightPlan artcc c a tracon t) =
           (deliver artcc tracon [plan_message c a t] c)
             \<lparr>eram_heap := (eram_heap c)(a := record_sent (eram_heap c a) g)\<rparr>"
  using assms
  by (auto simp: SendFlightPlan_def plan_destination_def deliver_def plan_message_def
        record_sent_def ToSTARSFacility_def SendMessageToERAM_def Let_def
        split: option.splits sum.splits)

lemma deliver_fields [simp]:
  "eram_heap (deliver artcc tracon ms c) = eram_heap c"
  "eram_Adaptation (deliver artcc tracon ms c) = eram_Adaptation c"
  "eram_Identifier (deliver artcc tracon ms c) = eram_Identifier c"
  "eram_TrackInformation (deliver artcc tracon ms c) = eram_TrackInformation c"
  "eram_FlightPlans (deliver artcc tracon ms c) = eram_FlightPlans c"
  "eram_ReceivedMessages (deliver artcc tracon ms c) = eram_ReceivedMessages c"
  "eram_AvailableSquawks (deliver artcc tracon ms c) = eram_AvailableSquawks c"
  "eram_next (deliver artcc tracon ms c) = eram_next c"
  by (simp_all add: deliver_def split: option.splits)

lemma deliver_append:
  assumes "eram_STARSComputers d = eram_STARSComputers (deliver artcc tracon ms c0)"
    and "eram_ERAMInboxes d = eram_ERAMInboxes (deliver artcc tracon ms c0)"
  shows "eram_STARSComputers (deliver artcc tracon [m] d) =
           eram_STARSComputers (deliver artcc tracon (ms @ [m]) c0)"
    and "eram_ERAMInboxes (deliver artcc tracon [m] d) =
           eram_ERAMInboxes (deliver artcc tracon (ms @ [m]) c0)"
  using assms
  by (auto simp: deliver_def split: option.splits)

lemma deliver_nothing:
  "eram_STARSComputers (deliver artcc tracon [] c) = eram_STARSComputers c"
  "eram_ERAMInboxes (deliver artcc tracon [] c) = eram_ERAMInboxes c"
  by (auto simp: deliver_def split: option.splits)

lemma transmitted_start: "transmitted artcc tracon instants c [] c"
  by (simp add: transmitted_def deliver_nothing)

lemma plan_destination_record_sent:
  assumes "eram_Adaptation c = eram_Adaptation c0"
    and "eram_heap c a = record_sent (eram_heap c0 a) g"
  shows "plan_destination c a = plan_destination c0 a"
  using assms by (intro plan_destination_cong) (simp_all add: record_sent_def)

lemma transmitted_sendPlanIfReady:
  assumes inv: "transmitted artcc tracon instants c0 sends c" and t: "t \<in> instants"
  shows "\<exists>sends'. transmitted artcc tracon instants c0 sends' (sendPlanIfReady artcc tracon t c b)"
proof -
  let ?c' = "sendPlanIfReady artcc tracon t c b"
  let ?msgs = "map (\<lambda>s. plan_message c0 (fst s) (snd s)) sends"
  from inv have ad: "eram_Adaptation c = eram_Adaptation c0"
    and idn: "eram_Identifier c = eram_Identifier c0"
    by (simp_all add: transmitted_def)
  from sendPlanIfReady_cases[of artcc tracon t c b]
  consider (same) "?c' = c"
    | (sent) f where "\<not> t + TransmitFPMessageTime < ct_Time (fp_CoordinationTime (eram_heap c b))"
        "plan_destination c b = Some f"
        "f \<notin> set (fp_ContainedFacilities (eram_heap c b))"
        "?c' = snd (SendFlightPlan artcc c b tracon t)"
    by blast
  then show ?thesis
  proof cases
    case same
    with inv show ?thesis by auto
  next
    case sent
    have fresh: "b \<notin> fst ` set sends"
    proof
      assume "b \<in> fst ` set sends"
      then obtain s where s: "s \<in> set sends" "fst s = b" by auto
      with inv obtain g where g: "plan_destination c0 b = Some g"
        "eram_heap c b = record_sent (eram_heap c0 b) g"
        by (auto simp: transmitted_def)
      from plan_destination_record_sent[OF ad g(2)] g(1) sent(2) have "f = g" by simp
      with g(2) have "f \<in> set (fp_ContainedFacilities (eram_heap c b))"
        by (simp add: record_sent_def)
      with sent(3) show False by simp
    qed
    with inv have hb: "eram_heap c b = eram_heap c0 b"
      by (simp add: transmitted_def)
    with ad have dest: "plan_destination c0 b = Some f"
      using sent(2) plan_destination_cong[of c c0 b] by simp
    from hb idn have pm: "plan_message c b t = plan_message c0 b t"
      by (simp add: plan_message_def)
    from sent(4) SendFlightPlan_state[OF sent(2), of artcc tracon t]
    have c': "?c' = (deliver artcc tracon [plan_message c0 b t] c)
             \<lparr>eram_heap := (eram_heap c)(b := record_sent (eram_heap c0 b) f)\<rparr>"
      by (simp add: pm hb)
    from inv have mb: "eram_STARSComputers c = eram_STARSComputers (deliver artcc tracon ?msgs c0)"
      "eram_ERAMInboxes c = eram_ERAMInboxes (deliver artcc tracon ?msgs c0)"
      by (simp_all add: transmitted_def)
    note app = deliver_append[OF mb, of "plan_message c0 b t"]
    let ?sends' = "sends @ [(b, t)]"
    have "transmitted artcc tracon instants c0 ?sends' ?c'"
      unfolding transmitted_def
    proof (intro conjI ballI allI impI)
      show "distinct (map fst ?sends')" using inv fresh by (simp add: transmitted_def)
    next
      fix s assume "s \<in> set ?sends'"
      then consider "s \<in> set sends" | "s = (b, t)" by auto
      then show "snd s \<in> instants" using inv t by cases (auto simp: transmitted_def)
    next
      fix s assume "s \<in> set ?sends'"
      then consider "s \<in> set sends" | "s = (b, t)" by auto
      then show "\<not> snd s + TransmitFPMessageTime
                  < ct_Time (fp_CoordinationTime (eram_heap c0 (fst s)))"
        using inv sent(1) hb by cases (auto simp: transmitted_def)
    next
      fix s assume "s \<in> set ?sends'"
      then consider (old) "s \<in> set sends" | (new) "s = (b, t)" by auto
      then show "\<exists>g. plan_destination c0 (fst s) = Some g \<and>
                    g \<notin> set (distribution c0 (fst s)) \<and>
                    eram_heap ?c' (fst s) = record_sent (eram_heap c0 (fst s)) g"
      proof cases
        case old
        with fresh have "fst s \<noteq> b" by auto
        with old inv show ?thesis by (auto simp: transmitted_def c')
      next
        case new
        with dest sent(3) hb show ?thesis by (simp add: c' distribution_def)
      qed
    next
      fix a assume "a \<notin> fst ` set ?sends'"
      then have "a \<noteq> b" "a \<notin> fst ` set sends" by auto
      with inv show "eram_heap ?c' a = eram_heap c0 a" by (simp add: transmitted_def c')
    next
      show "eram_STARSComputers ?c' = eram_STARSComputers
          (deliver artcc tracon (map (\<lambda>s. plan_message c0 (fst s) (snd s)) ?sends') c0)"
        using app(1) by (simp add: c')
    next
      show "eram_ERAMInboxes ?c' = eram_ERAMInboxes
          (deliver artcc tracon (map (\<lambda>s. plan_message c0 (fst s) (snd s)) ?sends') c0)"
        using app(2) by (simp add: c')
    next
      fix k show "eram_TrackInformation ?c' k = None \<or>
           eram_TrackInformation ?c' k = eram_TrackInformation c0 k"
        using inv by (simp add: transmitted_def c')
    qed (use inv in \<open>simp_all add: transmitted_def c'\<close>)
    then show ?thesis ..
  qed
qed

lemma transmitted_track:
  assumes inv: "transmitted artcc tracon instants c0 sends c" and t: "t \<in> instants"
  shows "\<exists>sends'. transmitted artcc tracon instants c0 sends'
           (SendFlightPlans_track artcc tracon t key c)"
proof -
  have del: "transmitted artcc tracon instants c0 sends
      (c\<lparr>eram_TrackInformation := (eram_TrackInformation c)(k := None)\<rparr>)" for k
    using inv by (simp add: transmitted_def)
  show ?thesis
    using transmitted_sendPlanIfReady[OF inv t] del inv
    by (auto simp: SendFlightPlans_track_def split: option.splits)
qed

lemma transmitted_plan:
  assumes inv: "transmitted artcc tracon instants c0 sends c" and t: "t \<in> instants"
  shows "\<exists>sends'. transmitted artcc tracon instants c0 sends'
           (SendFlightPlans_plan artcc tracon t key c)"
  using transmitted_sendPlanIfReady[OF inv t] inv
  by (auto simp: SendFlightPlans_plan_def split: option.splits)

lemma transmitted_SendFlightPlans:
  assumes inv: "transmitted artcc tracon instants c0 sends c" and t: "t \<in> instants"
  shows "\<exists>sends'. transmitted artcc tracon instants c0 sends'
           (SendFlightPlans artcc c tracon t trackOrder planOrder)"
proof -
  have tr: "\<exists>sends'. transmitted artcc tracon instants c0 sends'
      (fold (SendFlightPlans_track artcc tracon t) ks d)"
    if "transmitted artcc tracon instants c0 sd d" for ks sd d
    using that
  proof (induction ks arbitrary: sd d)
    case Nil
    then show ?case by auto
  next
    case (Cons k ks)
    from transmitted_track[OF Cons.prems t, of k] obtain s1 where
      "transmitted artcc tracon instants c0 s1 (SendFlightPlans_track artcc tracon t k d)" ..
    from Cons.IH[OF this] show ?case by simp
  qed
  have pl: "\<exists>sends'. transmitted artcc tracon instants c0 sends'
      (fold (SendFlightPlans_plan artcc tracon t) ks d)"
    if "transmitted artcc tracon instants c0 sd d" for ks sd d
    using that
  proof (induction ks arbitrary: sd d)
    case Nil
    then show ?case by auto
  next
    case (Cons k ks)
    from transmitted_plan[OF Cons.prems t, of k] obtain s1 where
      "transmitted artcc tracon instants c0 s1 (SendFlightPlans_plan artcc tracon t k d)" ..
    from Cons.IH[OF this] show ?case by simp
  qed
  from tr[OF inv, of trackOrder] obtain s1 where
    "transmitted artcc tracon instants c0 s1
       (fold (SendFlightPlans_track artcc tracon t) trackOrder c)" ..
  from pl[OF this, of planOrder] show ?thesis by (simp add: SendFlightPlans_def)
qed

lemma transmitted_ticks:
  "transmitted artcc tracon instants c0 sends c \<Longrightarrow> fst ` set ticks \<subseteq> instants \<Longrightarrow>
   \<exists>sends'. transmitted artcc tracon instants c0 sends'
     (SendFlightPlans_ticks artcc tracon ticks c)"
proof (induction ticks arbitrary: sends c)
  case Nil
  then show ?case by (auto simp: SendFlightPlans_ticks_def)
next
  case (Cons tick ticks)
  from Cons.prems(2) have t: "fst tick \<in> instants" and rest: "fst ` set ticks \<subseteq> instants" by auto
  from transmitted_SendFlightPlans[OF Cons.prems(1) t, of "fst (snd tick)" "snd (snd tick)"]
  obtain s1 where "transmitted artcc tracon instants c0 s1
      (SendFlightPlans artcc c tracon (fst tick) (fst (snd tick)) (snd (snd tick)))" ..
  from Cons.IH[OF this rest] show ?case by (simp add: SendFlightPlans_ticks_def)
qed


lemma SendFlightPlan_result:
  assumes "plan_destination c a = Some g"
  shows "SendFlightPlan artcc c a tracon t =
           (None, (deliver artcc tracon [plan_message c a t] c)
                    \<lparr>eram_heap := (eram_heap c)(a := record_sent (eram_heap c a) g)\<rparr>)"
  using assms
  by (auto simp: SendFlightPlan_def plan_destination_def deliver_def plan_message_def
        record_sent_def ToSTARSFacility_def SendMessageToERAM_def Let_def
        split: option.splits sum.splits)

lemma SendFlightPlan_unresolved:
  "plan_destination c a = None \<Longrightarrow> snd (SendFlightPlan artcc c a tracon t) = c"
  by (auto simp: SendFlightPlan_def plan_destination_def Let_def split: option.splits sum.splits)

lemma sendPlanIfReady_due:
  "\<not> t + TransmitFPMessageTime < ct_Time (fp_CoordinationTime (eram_heap c a)) \<Longrightarrow>
   plan_destination c a = Some g \<Longrightarrow> g \<notin> set (fp_ContainedFacilities (eram_heap c a)) \<Longrightarrow>
   sendPlanIfReady artcc tracon t c a = snd (SendFlightPlan artcc c a tracon t)"
  by (auto simp: sendPlanIfReady_def plan_destination_def Let_def split: option.splits sum.splits)

lemma distinct_keys_filter:
  "distinct (map fst xs) \<Longrightarrow> length (filter (\<lambda>s. fst s = a) xs) \<le> 1"
proof (induction xs)
  case Nil
  then show ?case by simp
next
  case (Cons x xs)
  show ?case
  proof (cases "fst x = a")
    case True
    with Cons.prems have "a \<notin> fst ` set xs" by auto
    then have "filter (\<lambda>s. fst s = a) xs = []" by (auto simp: filter_empty_conv)
    with True show ?thesis by simp
  next
    case False
    with Cons show ?thesis by simp
  qed
qed

text \<open>
  Claim C7.  For the plan at an address \<open>a\<close> of an ERAM computer, with coordination
  time T and the window W of 30 minutes.  One visit of the plan
  (\<^verbatim>\<open>sendPlanIfReady\<close>) leaves the computer as it is, mailboxes included, while
  \<open>simTime + W\<close> is before T, and also when the plan's distribution record holds
  the resolved destination facility; whenever it changes the computer,
  \<open>simTime + W\<close> has reached T, the change is that of one call of
  \<^verbatim>\<open>SendFlightPlan\<close>, and the resolved destination, absent from the record before,
  is appended to the record; and a plan that is due, resolved and not recorded
  is sent by the visit.  One call of \<^verbatim>\<open>SendFlightPlan\<close> for a plan with a resolved
  destination delivers one Plan message (to the STARS computer of the terminal
  facility, else to the inbox of its enroute facility) and appends the
  destination to the record; unresolved, it changes nothing.  Over any run of
  ticks of \<^verbatim>\<open>SendFlightPlans\<close>, at any clock values and in any iteration orders of
  the two tables: the record of the plan is unchanged or longer by that one
  entry, and the run is accounted for by a list of transmissions in which no
  plan occurs twice, each made at a tick that has reached the window of its
  plan, for a destination the record did not hold; the mailboxes after the run
  hold, behind what they held, exactly one message per entry of that list, in
  its order, and nothing else; the plan does not occur in the list when every
  tick of the run is before \<open>T - W\<close>, nor when its record holds the resolved
  destination at the start.
\<close>

theorem lookahead_transmission_at_most_once:
  "(simTime + TransmitFPMessageTime < ct_Time (fp_CoordinationTime (eram_heap c a)) \<longrightarrow>
      sendPlanIfReady artcc tracon simTime c a = c) \<and>
   (plan_destination c a = Some f \<and> f \<in> set (distribution c a) \<longrightarrow>
      sendPlanIfReady artcc tracon simTime c a = c) \<and>
   (sendPlanIfReady artcc tracon simTime c a \<noteq> c \<longrightarrow>
      \<not> simTime + TransmitFPMessageTime < ct_Time (fp_CoordinationTime (eram_heap c a)) \<and>
      sendPlanIfReady artcc tracon simTime c a = snd (SendFlightPlan artcc c a tracon simTime) \<and>
      (\<exists>g. plan_destination c a = Some g \<and> g \<notin> set (distribution c a) \<and>
           distribution (sendPlanIfReady artcc tracon simTime c a) a = distribution c a @ [g])) \<and>
   (distribution (SendFlightPlans_ticks artcc tracon ticks c) a = distribution c a \<or>
      (\<exists>g. plan_destination c a = Some g \<and> g \<notin> set (distribution c a) \<and>
           distribution (SendFlightPlans_ticks artcc tracon ticks c) a = distribution c a @ [g])) \<and>
   ((\<forall>tick \<in> set ticks.
        fst tick + TransmitFPMessageTime < ct_Time (fp_CoordinationTime (eram_heap c a))) \<longrightarrow>
      eram_heap (SendFlightPlans_ticks artcc tracon ticks c) a = eram_heap c a) \<and>
   (plan_destination c a = Some g \<longrightarrow>
      SendFlightPlan artcc c a tracon simTime =
        (None, (deliver artcc tracon [plan_message c a simTime] c)
                 \<lparr>eram_heap := (eram_heap c)(a := record_sent (eram_heap c a) g)\<rparr>)) \<and>
   (plan_destination c a = None \<longrightarrow> snd (SendFlightPlan artcc c a tracon simTime) = c) \<and>
   (\<not> simTime + TransmitFPMessageTime < ct_Time (fp_CoordinationTime (eram_heap c a)) \<and>
    plan_destination c a = Some g \<and> g \<notin> set (distribution c a) \<longrightarrow>
      sendPlanIfReady artcc tracon simTime c a = snd (SendFlightPlan artcc c a tracon simTime)) \<and>
   (\<exists>sends.
      transmitted artcc tracon (fst ` set ticks) c sends
        (SendFlightPlans_ticks artcc tracon ticks c) \<and>
      length (filter (\<lambda>s. fst s = a) sends) \<le> 1 \<and>
      ((\<forall>tick \<in> set ticks.
          fst tick + TransmitFPMessageTime < ct_Time (fp_CoordinationTime (eram_heap c a))) \<longrightarrow>
         a \<notin> fst ` set sends) \<and>
      (plan_destination c a = Some f \<and> f \<in> set (distribution c a) \<longrightarrow>
         a \<notin> fst ` set sends))"
proof -
  have early: "simTime + TransmitFPMessageTime < ct_Time (fp_CoordinationTime (eram_heap c a)) \<longrightarrow>
      sendPlanIfReady artcc tracon simTime c a = c"
    by (simp add: sendPlanIfReady_early)
  have recorded: "plan_destination c a = Some f \<and> f \<in> set (distribution c a) \<longrightarrow>
      sendPlanIfReady artcc tracon simTime c a = c"
    by (simp add: distribution_def sendPlanIfReady_recorded)
  have sends: "sendPlanIfReady artcc tracon simTime c a \<noteq> c \<longrightarrow>
      \<not> simTime + TransmitFPMessageTime < ct_Time (fp_CoordinationTime (eram_heap c a)) \<and>
      sendPlanIfReady artcc tracon simTime c a = snd (SendFlightPlan artcc c a tracon simTime) \<and>
      (\<exists>g. plan_destination c a = Some g \<and> g \<notin> set (distribution c a) \<and>
           distribution (sendPlanIfReady artcc tracon simTime c a) a = distribution c a @ [g])"
    using sendPlanIfReady_cases[of artcc tracon simTime c a]
    by (auto simp: distribution_def)
  have "sent_at_most_once c a c"
    by (simp add: sent_at_most_once_def)
  then have "sent_at_most_once c a (SendFlightPlans_ticks artcc tracon ticks c)"
    by (rule sent_at_most_once_ticks)
  then have once: "distribution (SendFlightPlans_ticks artcc tracon ticks c) a = distribution c a \<or>
      (\<exists>g. plan_destination c a = Some g \<and> g \<notin> set (distribution c a) \<and>
           distribution (SendFlightPlans_ticks artcc tracon ticks c) a = distribution c a @ [g])"
    by (auto simp: sent_at_most_once_def distribution_def)
  have before: "(\<forall>tick \<in> set ticks.
        fst tick + TransmitFPMessageTime < ct_Time (fp_CoordinationTime (eram_heap c a))) \<longrightarrow>
      eram_heap (SendFlightPlans_ticks artcc tracon ticks c) a = eram_heap c a"
    by (simp add: early_ticks)
  have delivers: "plan_destination c a = Some g \<longrightarrow>
      SendFlightPlan artcc c a tracon simTime =
        (None, (deliver artcc tracon [plan_message c a simTime] c)
                 \<lparr>eram_heap := (eram_heap c)(a := record_sent (eram_heap c a) g)\<rparr>)"
    by (simp add: SendFlightPlan_result)
  have unresolved: "plan_destination c a = None \<longrightarrow>
      snd (SendFlightPlan artcc c a tracon simTime) = c"
    by (simp add: SendFlightPlan_unresolved)
  have due: "\<not> simTime + TransmitFPMessageTime < ct_Time (fp_CoordinationTime (eram_heap c a)) \<and>
    plan_destination c a = Some g \<and> g \<notin> set (distribution c a) \<longrightarrow>
      sendPlanIfReady artcc tracon simTime c a = snd (SendFlightPlan artcc c a tracon simTime)"
    by (simp add: distribution_def sendPlanIfReady_due)
  from transmitted_ticks[OF transmitted_start subset_refl]
  obtain sends where tr: "transmitted artcc tracon (fst ` set ticks) c sends
      (SendFlightPlans_ticks artcc tracon ticks c)" by blast
  from tr have "distinct (map fst sends)" by (simp add: transmitted_def)
  then have one: "length (filter (\<lambda>s. fst s = a) sends) \<le> 1" by (rule distinct_keys_filter)
  have notyet: "(\<forall>tick \<in> set ticks.
          fst tick + TransmitFPMessageTime < ct_Time (fp_CoordinationTime (eram_heap c a))) \<longrightarrow>
         a \<notin> fst ` set sends"
  proof (intro impI notI)
    assume all: "\<forall>tick \<in> set ticks.
          fst tick + TransmitFPMessageTime < ct_Time (fp_CoordinationTime (eram_heap c a))"
      and "a \<in> fst ` set sends"
    then obtain s where s: "s \<in> set sends" "fst s = a" by auto
    with tr have "snd s \<in> fst ` set ticks"
      "\<not> snd s + TransmitFPMessageTime < ct_Time (fp_CoordinationTime (eram_heap c a))"
      by (auto simp: transmitted_def)
    with all show False by auto
  qed
  have norepeat: "plan_destination c a = Some f \<and> f \<in> set (distribution c a) \<longrightarrow>
         a \<notin> fst ` set sends"
  proof (intro impI notI)
    assume f: "plan_destination c a = Some f \<and> f \<in> set (distribution c a)"
      and "a \<in> fst ` set sends"
    then obtain s where s: "s \<in> set sends" "fst s = a" by auto
    with tr obtain g where "plan_destination c a = Some g" "g \<notin> set (distribution c a)"
      by (auto simp: transmitted_def)
    with f show False by simp
  qed
  from tr one notyet norepeat have run: "\<exists>sends.
      transmitted artcc tracon (fst ` set ticks) c sends
        (SendFlightPlans_ticks artcc tracon ticks c) \<and>
      length (filter (\<lambda>s. fst s = a) sends) \<le> 1 \<and>
      ((\<forall>tick \<in> set ticks.
          fst tick + TransmitFPMessageTime < ct_Time (fp_CoordinationTime (eram_heap c a))) \<longrightarrow>
         a \<notin> fst ` set sends) \<and>
      (plan_destination c a = Some f \<and> f \<in> set (distribution c a) \<longrightarrow>
         a \<notin> fst ` set sends)"
    by blast
  from early recorded sends once before delivers unresolved due run show ?thesis
    by (intro conjI)
qed


lemma example_plan_facts:
  "fp_CoordinationFix (FlightPlanMessage_FlightPlan example_plan_msg) = ''DIXIE''"
  "fp_Altitude (FlightPlanMessage_FlightPlan example_plan_msg) = ''310''"
  "fp_ContainedFacilities (FlightPlanMessage_FlightPlan example_plan_msg) = []"
  "ct_Time (fp_CoordinationTime (FlightPlanMessage_FlightPlan example_plan_msg)) = 0"
  by (simp_all add: FlightPlanMessage_FlightPlan_def example_plan_msg_def
        zero_FlightPlanMessage_def zero_CoordinationTime_def Let_def)

lemma example_plan_destination:
  "plan_destination example_eram_with_track b = (if b = 0 then Some ''N90'' else None)"
proof (cases "b = 0")
  case True
  then show ?thesis
    by (simp add: plan_destination_def example_eram_with_track_def example_eram_def
          example_adaptation_def example_plan_facts)
next
  case False
  then show ?thesis
    by (simp add: plan_destination_def example_eram_with_track_def example_eram_def
          example_adaptation_def FlightPlanMessage_FlightPlan_def zero_FlightPlanMessage_def
          Let_def)
qed

text \<open>
  The plan of the example is reachable from the track table and from the plan
  table.  31 minutes before its coordination time nothing is sent and the
  computer is as it was; a tick at the coordination time sends the plan, one
  minute later it is not sent again: the record is \<open>[N90]\<close> and the mailbox of
  N90, empty before, holds the one Plan message of the first tick.  For the
  address 1, which holds no plan with a coordination fix, nothing is sent.
\<close>

theorem lookahead_transmission_at_most_once_witness:
  "(- 1860000000000) + TransmitFPMessageTime
     < ct_Time (fp_CoordinationTime (eram_heap example_eram_with_track 0)) \<and>
   sendPlanIfReady (\<lambda>t. ''ZNY'') ''N90'' (- 1860000000000) example_eram_with_track 0
     = example_eram_with_track \<and>
   eram_heap (SendFlightPlans_ticks (\<lambda>t. ''ZNY'') ''N90''
       [(- 1860000000000, [''AAL123''], [313])] example_eram_with_track) 0
     = eram_heap example_eram_with_track 0 \<and>
   SendFlightPlans_ticks (\<lambda>t. ''ZNY'') ''N90''
       [(- 1860000000000, [''AAL123''], [313])] example_eram_with_track
     = example_eram_with_track \<and>
   plan_destination example_eram_recorded 0 = Some ''N90'' \<and>
   ''N90'' \<in> set (distribution example_eram_recorded 0) \<and>
   sendPlanIfReady (\<lambda>t. ''ZNY'') ''N90'' 0 example_eram_recorded 0 = example_eram_recorded \<and>
   sendPlanIfReady (\<lambda>t. ''ZNY'') ''N90'' 0 example_eram_with_track 0 \<noteq> example_eram_with_track \<and>
   plan_destination example_eram_with_track 0 = Some ''N90'' \<and>
   distribution example_eram_with_track 0 = [] \<and>
   distribution (sendPlanIfReady (\<lambda>t. ''ZNY'') ''N90'' 0 example_eram_with_track 0) 0 = [''N90''] \<and>
   distribution (SendFlightPlans_ticks (\<lambda>t. ''ZNY'') ''N90''
       [(0, [''AAL123''], [313]), (60000000000, [''AAL123''], [313])] example_eram_with_track) 0
     = [''N90''] \<and>
   SendFlightPlan (\<lambda>t. ''ZNY'') example_eram_with_track 0 ''N90'' 0 =
     (None, (deliver (\<lambda>t. ''ZNY'') ''N90'' [plan_message example_eram_with_track 0 0]
               example_eram_with_track)
              \<lparr>eram_heap := (eram_heap example_eram_with_track)(0 :=
                  record_sent (eram_heap example_eram_with_track 0) ''N90'')\<rparr>) \<and>
   sendPlanIfReady (\<lambda>t. ''ZNY'') ''N90'' 0 example_eram_with_track 0 =
     snd (SendFlightPlan (\<lambda>t. ''ZNY'') example_eram_with_track 0 ''N90'' 0) \<and>
   plan_destination example_eram_with_track 1 = None \<and>
   snd (SendFlightPlan (\<lambda>t. ''ZNY'') example_eram_with_track 1 ''N90'' 0) =
     example_eram_with_track \<and>
   map_option stars_ReceivedMessages (eram_STARSComputers example_eram_with_track ''N90'') =
     Some [] \<and>
   map_option stars_ReceivedMessages
     (eram_STARSComputers (SendFlightPlans_ticks (\<lambda>t. ''ZNY'') ''N90''
        [(0, [''AAL123''], [313]), (60000000000, [''AAL123''], [313])] example_eram_with_track)
        ''N90'') =
     Some [plan_message example_eram_with_track 0 0] \<and>
   (\<exists>sends. length sends = 1 \<and>
      eram_STARSComputers (SendFlightPlans_ticks (\<lambda>t. ''ZNY'') ''N90''
        [(0, [''AAL123''], [313]), (60000000000, [''AAL123''], [313])] example_eram_with_track) =
      eram_STARSComputers (deliver (\<lambda>t. ''ZNY'') ''N90''
        (map (\<lambda>s. plan_message example_eram_with_track (fst s) (snd s)) sends)
        example_eram_with_track))"
proof -
  let ?c = example_eram_with_track
  let ?r = example_eram_recorded
  let ?artcc = "\<lambda>t::string. ''ZNY''"
  let ?two = "[(0, [''AAL123''], [313]), (60000000000, [''AAL123''], [313])]
                :: (int \<times> string list \<times> Squawk list) list"
  have h: "eram_heap ?c 0 = FlightPlanMessage_FlightPlan example_plan_msg"
    by (simp add: example_eram_with_track_def)
  have early: "(- 1860000000000) + TransmitFPMessageTime
     < ct_Time (fp_CoordinationTime (eram_heap ?c 0))"
    by (simp add: h example_plan_facts TransmitFPMessageTime_def)
  have dr: "plan_destination ?r 0 = Some ''N90''" "''N90'' \<in> set (distribution ?r 0)"
    by (simp_all add: plan_destination_def distribution_def example_eram_recorded_def
          example_eram_with_track_def example_eram_def example_adaptation_def example_plan_facts)
  have dc: "plan_destination ?c 0 = Some ''N90''" "distribution ?c 0 = []"
    by (simp_all add: example_plan_destination distribution_def h example_plan_facts)
  have d1: "plan_destination ?c 1 = None"
    by (simp add: example_plan_destination)
  have due: "\<not> 0 + TransmitFPMessageTime < ct_Time (fp_CoordinationTime (eram_heap ?c 0))"
    by (simp add: h example_plan_facts TransmitFPMessageTime_def)
  have sent: "distribution (sendPlanIfReady ?artcc ''N90'' 0 ?c 0) 0 = [''N90'']"
    by (simp add: sendPlanIfReady_def distribution_def SendFlightPlan_heap
          example_eram_with_track_def example_eram_def example_adaptation_def example_plan_facts
          TransmitFPMessageTime_def)
  with dc(2) have ne: "sendPlanIfReady ?artcc ''N90'' 0 ?c 0 \<noteq> ?c" by auto
  have ticks: "distribution (SendFlightPlans_ticks ?artcc ''N90'' ?two ?c) 0 \<noteq> []"
    by (simp add: SendFlightPlans_ticks_def SendFlightPlans_def SendFlightPlans_track_def
          SendFlightPlans_plan_def sendPlanIfReady_def SendFlightPlan_def ToSTARSFacility_def
          distribution_def example_eram_with_track_def example_eram_track_def example_eram_def
          example_adaptation_def example_plan_facts TransmitFPMessageTime_def Let_def)
  have quiet: "SendFlightPlans_ticks ?artcc ''N90'' [(- 1860000000000, [''AAL123''], [313])] ?c = ?c"
    by (simp add: SendFlightPlans_ticks_def SendFlightPlans_def SendFlightPlans_track_def
          SendFlightPlans_plan_def sendPlanIfReady_def
          example_eram_with_track_def example_eram_track_def example_eram_def
          example_plan_facts TransmitFPMessageTime_def Let_def)
  have before: "map_option stars_ReceivedMessages (eram_STARSComputers ?c ''N90'') = Some []"
    by (simp add: example_eram_with_track_def example_eram_def example_stars_def
          MakeSTARSComputer_def)
  have box: "map_option stars_ReceivedMessages
     (eram_STARSComputers (SendFlightPlans_ticks ?artcc ''N90'' ?two ?c) ''N90'') =
     Some [plan_message ?c 0 0]"
    by (simp add: SendFlightPlans_ticks_def SendFlightPlans_def SendFlightPlans_track_def
          SendFlightPlans_plan_def sendPlanIfReady_def SendFlightPlan_def ToSTARSFacility_def
          plan_message_def example_eram_with_track_def example_eram_track_def example_eram_def
          example_stars_def MakeSTARSComputer_def
          example_adaptation_def example_plan_facts TransmitFPMessageTime_def Let_def)
  note t1 = lookahead_transmission_at_most_once[where c = ?c and a = 0 and artcc = ?artcc
      and tracon = "''N90''" and simTime = "- 1860000000000"
      and ticks = "[(- 1860000000000, [''AAL123''], [313])]"]
  note t2 = lookahead_transmission_at_most_once[where c = ?r and a = 0 and artcc = ?artcc
      and tracon = "''N90''" and simTime = 0 and f = "''N90''"]
  note t3 = lookahead_transmission_at_most_once[where c = ?c and a = 0 and artcc = ?artcc
      and tracon = "''N90''" and simTime = 0 and g = "''N90''" and ticks = ?two]
  note t4 = lookahead_transmission_at_most_once[where c = ?c and a = 1 and artcc = ?artcc
      and tracon = "''N90''" and simTime = 0]
  from t1 early have a1: "sendPlanIfReady ?artcc ''N90'' (- 1860000000000) ?c 0 = ?c"
    "eram_heap (SendFlightPlans_ticks ?artcc ''N90''
       [(- 1860000000000, [''AAL123''], [313])] ?c) 0 = eram_heap ?c 0"
    by simp_all
  from t2 dr have a2: "sendPlanIfReady ?artcc ''N90'' 0 ?r 0 = ?r" by blast
  from t3 dc ticks have a3: "distribution (SendFlightPlans_ticks ?artcc ''N90'' ?two ?c) 0
      = [''N90'']"
    by auto
  from t3 dc(1) have a4: "SendFlightPlan ?artcc ?c 0 ''N90'' 0 =
     (None, (deliver ?artcc ''N90'' [plan_message ?c 0 0] ?c)
              \<lparr>eram_heap := (eram_heap ?c)(0 := record_sent (eram_heap ?c 0) ''N90'')\<rparr>)"
    by blast
  from t3 dc due have a5: "sendPlanIfReady ?artcc ''N90'' 0 ?c 0 =
     snd (SendFlightPlan ?artcc ?c 0 ''N90'' 0)"
    by simp
  from t4 d1 have a6: "snd (SendFlightPlan ?artcc ?c 1 ''N90'' 0) = ?c" by blast
  from t3 obtain sends where tr: "transmitted ?artcc ''N90'' (fst ` set ?two) ?c sends
      (SendFlightPlans_ticks ?artcc ''N90'' ?two ?c)" by blast
  have only: "fst s = 0" if "s \<in> set sends" for s
  proof -
    from tr that obtain g where "plan_destination ?c (fst s) = Some g"
      by (auto simp: transmitted_def)
    then show ?thesis by (simp add: example_plan_destination split: if_splits)
  qed
  have some: "sends \<noteq> []"
  proof
    assume "sends = []"
    with tr have "eram_heap (SendFlightPlans_ticks ?artcc ''N90'' ?two ?c) 0 = eram_heap ?c 0"
      by (simp add: transmitted_def)
    with ticks dc(2) show False by (simp add: distribution_def)
  qed
  from tr have dist: "distinct (map fst sends)" by (simp add: transmitted_def)
  have len: "length sends = 1"
  proof (cases sends)
    case Nil
    with some show ?thesis by simp
  next
    case (Cons x xs)
    have "xs = []"
    proof (cases xs)
      case Nil
      then show ?thesis .
    next
      case (Cons y ys)
      with \<open>sends = x # xs\<close> only[of x] only[of y] dist show ?thesis by simp
    qed
    with Cons show ?thesis by simp
  qed
  from tr have "eram_STARSComputers (SendFlightPlans_ticks ?artcc ''N90'' ?two ?c) =
      eram_STARSComputers (deliver ?artcc ''N90''
        (map (\<lambda>s. plan_message ?c (fst s) (snd s)) sends) ?c)"
    by (simp add: transmitted_def)
  with len have a7: "\<exists>sends. length sends = 1 \<and>
      eram_STARSComputers (SendFlightPlans_ticks ?artcc ''N90'' ?two ?c) =
      eram_STARSComputers (deliver ?artcc ''N90''
        (map (\<lambda>s. plan_message ?c (fst s) (snd s)) sends) ?c)"
    by blast
  from early a1 quiet dr a2 ne dc sent a3 a4 a5 d1 a6 before box a7 show ?thesis
    by (intro conjI)
qed


end
